theory Spec2Isabelle
  imports Complex_Main "HOL-Library.AList"
begin

section \<open>Python values, rows and exceptions\<close>

text \<open>
  A row of a bulk-import batch is a Python dictionary from column names to loosely typed
  values (\<^verbatim>\<open>Dict[str, Any]\<close>, one per record of \<^verbatim>\<open>df.to_dict('records')\<close>).
  The values that can occur in the columns of the importer are modelled by \<open>pyval\<close>:
  \<open>VNaN\<close> is the floating point NaN that pandas uses as its missing-value marker,
  \<open>VFloat\<close> carries every other float as a rational (no arithmetic is done on them),
  \<open>VList\<close> is a list of strings (the \<^verbatim>\<open>allergens\<close> column) and \<open>VDate\<close> a
  \<^verbatim>\<open>datetime.date\<close> object. A dictionary keeps insertion order, so it is an association
  list that is read with \<open>map_of\<close> and written with \<open>AList.update\<close>.
\<close>

datatype pyval =
    VNone
  | VNaN
  | VBool bool
  | VInt int
  | VFloat rat
  | VStr string
  | VList "string list"
  | VDate int int int

type_synonym row = "(string \<times> pyval) list"

datatype exn =
    HTTPException nat string
  | ValueError string
  | Exception string

text \<open>Python truthiness (\<^verbatim>\<open>bool(x)\<close>, the test of \<^verbatim>\<open>if x\<close> and \<^verbatim>\<open>not x\<close>).\<close>

fun truthy :: "pyval \<Rightarrow> bool" where
  "truthy VNone = False"
| "truthy VNaN = True"
| "truthy (VBool b) = b"
| "truthy (VInt i) = (i \<noteq> 0)"
| "truthy (VFloat q) = (q \<noteq> 0)"
| "truthy (VStr s) = (s \<noteq> [])"
| "truthy (VList xs) = (xs \<noteq> [])"
| "truthy (VDate y m d) = True"

text \<open>
  The test \<^verbatim>\<open>if pd.isna(value)\<close>. On a scalar \<^verbatim>\<open>pd.isna\<close> is True for None and
  NaN and False otherwise. On a list it returns an array with one boolean per element
  (False for a string), and the \<^verbatim>\<open>if\<close> takes the truth value of that array: that
  of its element for an array of one element, and ValueError for an array of two or more
  elements. For the empty array the result depends on the version of NumPy, which is an
  argument of the model: False (with a warning) before NumPy 2.2, as the example of the
  source with \<^verbatim>\<open>'allergens': [[], [], []]\<close> takes it to be, and ValueError from NumPy
  2.2 on.
\<close>

datatype numpy_version = Before_2_2 | From_2_2

definition ambiguous :: string where
  "ambiguous = ''The truth value of an array with more than one element is ambiguous. Use a.any() or a.all()''"

definition ambiguous_empty :: string where
  "ambiguous_empty = ''The truth value of an empty array is ambiguous. Use `array.size > 0` to check that an array is not empty.''"

fun isna :: "numpy_version \<Rightarrow> pyval \<Rightarrow> exn + bool" where
  "isna np VNone = Inr True"
| "isna np VNaN = Inr True"
| "isna np (VList xs) =
     (if xs = [] then (if np = From_2_2 then Inl (ValueError ambiguous_empty) else Inr False)
      else if 1 < length xs then Inl (ValueError ambiguous)
      else Inr False)"
| "isna np v = Inr False"

section \<open>\<^verbatim>\<open>datetime.strptime(s, '%Y-%m-%d')\<close>\<close>

text \<open>
  \<^verbatim>\<open>strptime\<close> compiles the format to the regular expression
  \<^verbatim>\<open>(?P<Y>\d\d\d\d)-(?P<m>1[0-2]|0[1-9]|[1-9])-(?P<d>3[0-1]|[1-2]\d|0[1-9]|[1-9]| [1-9])\<close>,
  matches it at the start of the string (alternatives in the order written), raises
  ValueError when it does not match or when characters remain after the match, and
  then builds the date, which raises ValueError for year 0 and for a day that the month
  does not have. \<open>None\<close> stands for the ValueError. Strings are ASCII here.
\<close>

definition digit :: "char \<Rightarrow> int option" where
  "digit c = map_of
     [(CHR ''0'', 0), (CHR ''1'', 1), (CHR ''2'', 2), (CHR ''3'', 3), (CHR ''4'', 4),
      (CHR ''5'', 5), (CHR ''6'', 6), (CHR ''7'', 7), (CHR ''8'', 8), (CHR ''9'', 9)] c"

definition match_year :: "string \<Rightarrow> (int \<times> string) option" where
  "match_year s =
     (case s of
        a # b # c # d # r \<Rightarrow>
          (case (digit a, digit b, digit c, digit d) of
             (Some x, Some y, Some z, Some w) \<Rightarrow> Some (1000 * x + 100 * y + 10 * z + w, r)
           | _ \<Rightarrow> None)
      | _ \<Rightarrow> None)"

definition match_lit :: "char \<Rightarrow> string \<Rightarrow> string option" where
  "match_lit c s = (case s of a # r \<Rightarrow> if a = c then Some r else None | [] \<Rightarrow> None)"

text \<open>One alternative of two characters: the first from \<open>as\<close>, the second from \<open>bs\<close>.\<close>

definition alt2 :: "string \<Rightarrow> string \<Rightarrow> string \<Rightarrow> (int \<times> string) option" where
  "alt2 as bs s =
     (case s of
        a # b # r \<Rightarrow>
          (case (digit a, digit b) of
             (Some x, Some y) \<Rightarrow> if a \<in> set as \<and> b \<in> set bs then Some (10 * x + y, r) else None
           | _ \<Rightarrow> None)
      | _ \<Rightarrow> None)"

text \<open>One alternative of a single character from \<open>as\<close>.\<close>

definition alt1 :: "string \<Rightarrow> string \<Rightarrow> (int \<times> string) option" where
  "alt1 as s =
     (case s of
        a # r \<Rightarrow> (case digit a of Some x \<Rightarrow> if a \<in> set as then Some (x, r) else None | None \<Rightarrow> None)
      | [] \<Rightarrow> None)"

text \<open>
  The first alternative of the list that matches and is followed by what \<open>k\<close> accepts:
  the backtracking of the regular expression over the alternatives of one group.
\<close>

fun first_alt :: "(string \<Rightarrow> (int \<times> string) option) list \<Rightarrow> (string \<Rightarrow> 'a option) \<Rightarrow> string
    \<Rightarrow> (int \<times> 'a) option" where
  "first_alt [] k s = None"
| "first_alt (p # ps) k s =
     (case p s of
        None \<Rightarrow> first_alt ps k s
      | Some (n, r) \<Rightarrow> (case k r of None \<Rightarrow> first_alt ps k s | Some x \<Rightarrow> Some (n, x)))"

definition month_alts :: "(string \<Rightarrow> (int \<times> string) option) list" where
  "month_alts = [alt2 ''1'' ''012'', alt2 ''0'' ''123456789'', alt1 ''123456789'']"

definition day_alts :: "(string \<Rightarrow> (int \<times> string) option) list" where
  "day_alts =
     [alt2 ''3'' ''01'', alt2 ''12'' ''0123456789'', alt2 ''0'' ''123456789'', alt1 ''123456789'',
      (\<lambda>s. case match_lit CHR '' '' s of None \<Rightarrow> None | Some r \<Rightarrow> alt1 ''123456789'' r)]"

definition is_leap :: "int \<Rightarrow> bool" where
  "is_leap y = (y mod 4 = 0 \<and> (y mod 100 \<noteq> 0 \<or> y mod 400 = 0))"

definition days_in_month :: "int \<Rightarrow> int \<Rightarrow> int" where
  "days_in_month y m =
     (if m = 2 then (if is_leap y then 29 else 28)
      else if m \<in> {4, 6, 9, 11} then 30 else 31)"

definition strptime_ymd :: "string \<Rightarrow> (int \<times> int \<times> int) option" where
  "strptime_ymd s =
     (case match_year s of
        None \<Rightarrow> None
      | Some (y, r1) \<Rightarrow>
          (case match_lit CHR ''-'' r1 of
             None \<Rightarrow> None
           | Some r2 \<Rightarrow>
               (case first_alt month_alts
                       (\<lambda>r3. case match_lit CHR ''-'' r3 of
                                None \<Rightarrow> None
                              | Some r4 \<Rightarrow> first_alt day_alts Some r4) r2 of
                  None \<Rightarrow> None
                | Some (m, d, rest) \<Rightarrow>
                    if rest \<noteq> [] then None
                    else if y < 1 \<or> days_in_month y m < d then None
                    else Some (y, m, d))))"

section \<open>The import script: \<^verbatim>\<open>prepare_food_data\<close>\<close>

text \<open>
  The loop \<^verbatim>\<open>for key, value in item.items(): if pd.isna(value): item[key] = None\<close>.
  The keys of a dictionary are distinct, so writing \<^verbatim>\<open>item[key]\<close> replaces the value
  of the pair being visited.
\<close>

fun handle_nan :: "numpy_version \<Rightarrow> row \<Rightarrow> exn + row" where
  "handle_nan np [] = Inr []"
| "handle_nan np ((key, v) # kvs) =
     (case isna np v of
        Inl e \<Rightarrow> Inl e
      | Inr b \<Rightarrow>
          (case handle_nan np kvs of
             Inl e \<Rightarrow> Inl e
           | Inr kvs' \<Rightarrow> Inr ((key, if b then VNone else v) # kvs')))"

text \<open>\<^verbatim>\<open>'k' not in item or not item['k']\<close>\<close>

definition missing :: "string \<Rightarrow> row \<Rightarrow> bool" where
  "missing k item = (case map_of item k of None \<Rightarrow> True | Some v \<Rightarrow> \<not> truthy v)"

text \<open>\<^verbatim>\<open>if 'quantity' not in item or item['quantity'] is None: item['quantity'] = 1\<close>\<close>

definition default_quantity :: "row \<Rightarrow> row" where
  "default_quantity item =
     (if map_of item ''quantity'' = None \<or> map_of item ''quantity'' = Some VNone
      then AList.update ''quantity'' (VInt 1) item else item)"

text \<open>A string in \<^verbatim>\<open>allergens\<close> becomes a one-element list, the empty string the empty list.\<close>

definition allergens_to_list :: "row \<Rightarrow> row" where
  "allergens_to_list item =
     (case map_of item ''allergens'' of
        Some (VStr s) \<Rightarrow> AList.update ''allergens'' (VList (if s \<noteq> [] then [s] else [])) item
      | _ \<Rightarrow> item)"

text \<open>
  The \<^verbatim>\<open>expiry_date\<close> block: entered only when the key is in the row and its value is
  truthy; a string is kept when \<^verbatim>\<open>strptime\<close> accepts it and replaced by None when it
  raises ValueError; a value that is not a string is replaced by None.
\<close>

definition check_expiry_date :: "row \<Rightarrow> row" where
  "check_expiry_date item =
     (case map_of item ''expiry_date'' of
        None \<Rightarrow> item
      | Some v \<Rightarrow>
          if truthy v then
            (case v of
               VStr s \<Rightarrow>
                 (case strptime_ymd s of
                    Some d \<Rightarrow> item
                  | None \<Rightarrow> AList.update ''expiry_date'' VNone item)
             | _ \<Rightarrow> AList.update ''expiry_date'' VNone item)
          else item)"

text \<open>The body of the loop over \<^verbatim>\<open>data\<close>, for one item.\<close>

definition prepare_item :: "numpy_version \<Rightarrow> row \<Rightarrow> exn + row" where
  "prepare_item np item0 =
     (case handle_nan np item0 of
        Inl e \<Rightarrow> Inl e
      | Inr item \<Rightarrow>
          if missing ''barcode'' item then Inl (ValueError ''barcode is required for all items'')
          else if missing ''name'' item then Inl (ValueError ''name is required for all items'')
          else Inr (check_expiry_date (allergens_to_list (default_quantity item))))"

text \<open>
  \<^verbatim>\<open>prepare_food_data\<close>: the items are cleaned in order, and the first exception leaves
  the function, so that no list is returned. The first argument is the version of NumPy
  under which the script runs.
\<close>

fun prepare_food_data :: "numpy_version \<Rightarrow> row list \<Rightarrow> exn + row list" where
  "prepare_food_data np [] = Inr []"
| "prepare_food_data np (item # data) =
     (case prepare_item np item of
        Inl e \<Rightarrow> Inl e
      | Inr item' \<Rightarrow>
          (case prepare_food_data np data of
             Inl e \<Rightarrow> Inl e
           | Inr data' \<Rightarrow> Inr (item' # data')))"

section \<open>The stored data\<close>

text \<open>
  Modelled from the spec: the non-generated fields of a FoodItem (section 3), which are
  also the payload of CreateFood; the schema \<^verbatim>\<open>FoodCreate\<close> is declared in
  \<^verbatim>\<open>schemas.py\<close>. Floating point fields are carried as rationals, a calendar date as
  year, month and day.
\<close>

record food_fields =
  barcode :: string
  name :: "string option"
  brand :: "string option"
  category :: "string option"
  calories :: "int option"
  protein :: "rat option"
  fat :: "rat option"
  carbs :: "rat option"
  fiber :: "rat option"
  sugars :: "rat option"
  sodium :: "rat option"
  allergens :: "string list"
  expiry_date :: "(int \<times> int \<times> int) option"
  quantity :: int
  location :: "string option"

text \<open>
  Modelled from the spec: a FoodItem is its fields together with the generated ones, the
  identifier (\<open>fid\<close>, the column \<^verbatim>\<open>id\<close>) and the two timestamps. Identifiers and
  times are natural numbers.
\<close>

record food_item =
  fid :: nat
  food_data :: food_fields
  created_at :: nat
  updated_at :: nat

text \<open>
  Modelled from the spec: the payload of UpdateFood (\<^verbatim>\<open>FoodUpdate\<close> of
  \<^verbatim>\<open>schemas.py\<close>), every field of which may be null.
\<close>

record food_update =
  upd_barcode :: "string option"
  upd_name :: "string option"
  upd_brand :: "string option"
  upd_category :: "string option"
  upd_calories :: "int option"
  upd_protein :: "rat option"
  upd_fat :: "rat option"
  upd_carbs :: "rat option"
  upd_fiber :: "rat option"
  upd_sugars :: "rat option"
  upd_sodium :: "rat option"
  upd_allergens :: "string list option"
  upd_expiry_date :: "(int \<times> int \<times> int) option"
  upd_quantity :: "int option"
  upd_location :: "string option"

text \<open>Modelled from the spec: a NutritionLogEntry (section 3).\<close>

record nutrition_log =
  log_id :: nat
  food_id :: nat
  log_quantity :: int
  log_action :: string
  log_timestamp :: nat

text \<open>
  Modelled from the spec: the persisted state, two tables (section 6), and the source of
  fresh identifiers (identifiers are system-generated and unique, section 3).
\<close>

record database =
  foods :: "food_item list"
  nutrition_logs :: "nutrition_log list"
  next_id :: nat

definition empty_db :: database where
  "empty_db = \<lparr>foods = [], nutrition_logs = [], next_id = 0\<rparr>"

text \<open>
  The invariant of the store: every stored identifier has been handed out by the
  generator.
\<close>

definition wf_db :: "database \<Rightarrow> bool" where
  "wf_db db = list_all (\<lambda>f. fid f < next_id db) (foods db)"

section \<open>The record store, the quantity mutator and the query layer\<close>

text \<open>
  Modelled from the spec: \<^verbatim>\<open>crud.create_food\<close> (section 4.1) always inserts a new
  row under a fresh identifier, with no uniqueness check on the barcode.
\<close>

definition create_food :: "database \<Rightarrow> food_fields \<Rightarrow> nat \<Rightarrow> exn + food_item \<times> database" where
  "create_food db data now =
     (let item = \<lparr>fid = next_id db, food_data = data, created_at = now, updated_at = now\<rparr>
      in Inr (item, db\<lparr>foods := foods db @ [item], next_id := Suc (next_id db)\<rparr>))"

text \<open>Modelled from the spec: \<^verbatim>\<open>crud.get_food_by_id\<close> (section 4.1), None for NotFound.\<close>

definition get_food_by_id :: "database \<Rightarrow> nat \<Rightarrow> food_item option" where
  "get_food_by_id db i = find (\<lambda>f. fid f = i) (foods db)"

text \<open>
  Modelled from the spec: the fields of a partial update that are not null are applied,
  the others are left as they are (section 4.1).
\<close>

definition apply_update :: "food_update \<Rightarrow> food_fields \<Rightarrow> food_fields" where
  "apply_update u f =
     \<lparr>barcode = (case upd_barcode u of None \<Rightarrow> barcode f | Some v \<Rightarrow> v),
      name = (case upd_name u of None \<Rightarrow> name f | Some v \<Rightarrow> Some v),
      brand = (case upd_brand u of None \<Rightarrow> brand f | Some v \<Rightarrow> Some v),
      category = (case upd_category u of None \<Rightarrow> category f | Some v \<Rightarrow> Some v),
      calories = (case upd_calories u of None \<Rightarrow> calories f | Some v \<Rightarrow> Some v),
      protein = (case upd_protein u of None \<Rightarrow> protein f | Some v \<Rightarrow> Some v),
      fat = (case upd_fat u of None \<Rightarrow> fat f | Some v \<Rightarrow> Some v),
      carbs = (case upd_carbs u of None \<Rightarrow> carbs f | Some v \<Rightarrow> Some v),
      fiber = (case upd_fiber u of None \<Rightarrow> fiber f | Some v \<Rightarrow> Some v),
      sugars = (case upd_sugars u of None \<Rightarrow> sugars f | Some v \<Rightarrow> Some v),
      sodium = (case upd_sodium u of None \<Rightarrow> sodium f | Some v \<Rightarrow> Some v),
      allergens = (case upd_allergens u of None \<Rightarrow> allergens f | Some v \<Rightarrow> v),
      expiry_date = (case upd_expiry_date u of None \<Rightarrow> expiry_date f | Some v \<Rightarrow> Some v),
      quantity = (case upd_quantity u of None \<Rightarrow> quantity f | Some v \<Rightarrow> v),
      location = (case upd_location u of None \<Rightarrow> location f | Some v \<Rightarrow> Some v)\<rparr>"

text \<open>
  Modelled from the spec: a change of one row of the table. The row with identifier \<open>i\<close>
  is replaced by its image under \<open>g\<close>, the other rows stay.
\<close>

definition modify_food :: "nat \<Rightarrow> (food_item \<Rightarrow> food_item) \<Rightarrow> food_item list \<Rightarrow> food_item list" where
  "modify_food i g fs = map (\<lambda>f. if fid f = i then g f else f) fs"

text \<open>
  Modelled from the spec: \<^verbatim>\<open>crud.update_food\<close> (section 4.1), None for NotFound.
\<close>

definition update_food :: "database \<Rightarrow> nat \<Rightarrow> food_update \<Rightarrow> nat \<Rightarrow> food_item option \<times> database" where
  "update_food db i u now =
     (case get_food_by_id db i of
        None \<Rightarrow> (None, db)
      | Some f \<Rightarrow>
          (let g = (\<lambda>f. f\<lparr>food_data := apply_update u (food_data f), updated_at := now\<rparr>)
           in (Some (g f), db\<lparr>foods := modify_food i g (foods db)\<rparr>)))"

text \<open>
  Modelled from the spec: \<^verbatim>\<open>crud.update_quantity\<close> (section 4.2). The delta is added
  to the quantity with no floor, and a NutritionLogEntry with the same delta and action,
  referencing the food, is appended in the same operation. When the food does not exist
  neither happens.
\<close>

definition update_quantity :: "database \<Rightarrow> nat \<Rightarrow> int \<Rightarrow> string \<Rightarrow> nat \<Rightarrow> food_item option \<times> database" where
  "update_quantity db i delta act now =
     (case get_food_by_id db i of
        None \<Rightarrow> (None, db)
      | Some f \<Rightarrow>
          (let g = (\<lambda>f. f\<lparr>food_data := (food_data f)\<lparr>quantity := quantity (food_data f) + delta\<rparr>,
                          updated_at := now\<rparr>);
               entry = \<lparr>log_id = next_id db, food_id = i, log_quantity = delta,
                        log_action = act, log_timestamp = now\<rparr>
           in (Some (g f),
               db\<lparr>foods := modify_food i g (foods db),
                  nutrition_logs := nutrition_logs db @ [entry],
                  next_id := Suc (next_id db)\<rparr>)))"

text \<open>
  Modelled from the spec: \<^verbatim>\<open>crud.delete_food_by_barcode\<close> (section 4.1) deletes every
  row with the barcode and returns how many there were.
\<close>

definition delete_food_by_barcode :: "database \<Rightarrow> string \<Rightarrow> nat \<times> database" where
  "delete_food_by_barcode db b =
     (length (filter (\<lambda>f. barcode (food_data f) = b) (foods db)),
      db\<lparr>foods := filter (\<lambda>f. barcode (food_data f) \<noteq> b) (foods db)\<rparr>)"

text \<open>
  Modelled from the spec: \<^verbatim>\<open>crud.get_low_stock_foods\<close> (section 4.5), the rows with
  \<^verbatim>\<open>quantity < threshold\<close>.
\<close>

definition get_low_stock_foods :: "database \<Rightarrow> int \<Rightarrow> food_item list" where
  "get_low_stock_foods db threshold = filter (\<lambda>f. quantity (food_data f) < threshold) (foods db)"

section \<open>The endpoints of \<^verbatim>\<open>backend/main.py\<close>\<close>

text \<open>
  An endpoint takes the database and its request and returns its response, or the
  exception it raises, together with the database it leaves. The current time
  (\<^verbatim>\<open>datetime.now()\<close>) is an argument. What an endpoint writes to the logger is returned
  as a list of lines.
\<close>

datatype level = INFO | ERROR

type_synonym log_line = "level \<times> string"

datatype json = JStr string | JInt int | JTime nat

text \<open>\<^verbatim>\<open>str\<close> of a status code, in decimal.\<close>

definition digit_char :: "nat \<Rightarrow> char" where
  "digit_char n = ''0123456789'' ! (n mod 10)"

function str_nat :: "nat \<Rightarrow> string" where
  "str_nat n = (if n < 10 then [digit_char n] else str_nat (n div 10) @ [digit_char n])"
  by pat_completeness auto
termination
  by (relation "measure id") auto

declare str_nat.simps [simp del]

text \<open>
  \<^verbatim>\<open>str(e)\<close>: the message of a built-in exception, and status code and detail of an
  HTTPException.
\<close>

fun str_exn :: "exn \<Rightarrow> string" where
  "str_exn (HTTPException code d) = str_nat code @ '': '' @ d"
| "str_exn (ValueError m) = m"
| "str_exn (Exception m) = m"

text \<open>
  A parameter declared with \<^verbatim>\<open>Query(default, ge=.., le=..)\<close>: the default is taken when
  the request does not give the parameter, and a value outside the bounds is answered
  with a RequestValidationError naming the parameter, before the endpoint is called.
  This error is not raised by the endpoint.
\<close>

datatype request_validation_error = RequestValidationError "string list"

definition query_default :: "int \<Rightarrow> int option \<Rightarrow> int" where
  "query_default d p = (case p of None \<Rightarrow> d | Some v \<Rightarrow> v)"

definition check_ge :: "string \<Rightarrow> int \<Rightarrow> int \<Rightarrow> string list" where
  "check_ge p lo v = (if v < lo then [p] else [])"

definition check_le :: "string \<Rightarrow> int \<Rightarrow> int \<Rightarrow> string list" where
  "check_le p hi v = (if hi < v then [p] else [])"

definition health_check :: "nat \<Rightarrow> (string \<times> json) list" where
  "health_check now = [(''status'', JStr ''healthy''), (''timestamp'', JTime now)]"

text \<open>
  \<^verbatim>\<open>lifespan\<close>, up to its \<^verbatim>\<open>yield\<close>: the arguments are what \<^verbatim>\<open>create_tables()\<close>
  and \<^verbatim>\<open>test_connection()\<close> do (return, or raise); the second is only called when
  the first has returned. The result is what is logged; no exception leaves the function.
\<close>

definition lifespan :: "exn + unit \<Rightarrow> exn + bool \<Rightarrow> log_line list" where
  "lifespan create_tables test_connection =
     (case create_tables of
        Inl e \<Rightarrow> [(ERROR, ''Startup error: '' @ str_exn e)]
      | Inr u \<Rightarrow>
          (case test_connection of
             Inl e \<Rightarrow> [(ERROR, ''Startup error: '' @ str_exn e)]
           | Inr ok \<Rightarrow>
               if ok then [(INFO, ''Database connection successful'')]
               else [(ERROR, ''Database connection failed'')]))"

text \<open>The application is started, and then asked for its health at time \<open>now\<close>.\<close>

definition health_after_startup :: "exn + unit \<Rightarrow> exn + bool \<Rightarrow> nat \<Rightarrow> log_line list \<times> (string \<times> json) list" where
  "health_after_startup create_tables test_connection now =
     (let logged = lifespan create_tables test_connection in (logged, health_check now))"

text \<open>
  \<^verbatim>\<open>create_food_endpoint\<close>; the first argument is the function called as
  \<^verbatim>\<open>create_food\<close>, which returns the created row or raises. An HTTPException is
  raised again as it is, any other exception is logged and replaced by an HTTPException
  500 with a fixed detail. When the call raises, the database is left as it was.
\<close>

definition create_food_endpoint ::
  "(database \<Rightarrow> food_fields \<Rightarrow> nat \<Rightarrow> exn + food_item \<times> database) \<Rightarrow>
   database \<Rightarrow> food_fields \<Rightarrow> nat \<Rightarrow> (exn + food_item) \<times> database \<times> log_line list" where
  "create_food_endpoint crud_create_food db food now =
     (case crud_create_food db food now of
        Inr (created_food, db') \<Rightarrow> (Inr created_food, db', [(INFO, ''Created new food: '' @ barcode food)])
      | Inl (HTTPException code d) \<Rightarrow> (Inl (HTTPException code d), db, [])
      | Inl e \<Rightarrow>
          (Inl (HTTPException 500 ''Internal server error''), db,
           [(ERROR, ''Error creating food: '' @ str_exn e)]))"

definition get_food_endpoint :: "database \<Rightarrow> nat \<Rightarrow> exn + food_item" where
  "get_food_endpoint db i =
     (case get_food_by_id db i of
        None \<Rightarrow> Inl (HTTPException 404 ''Food not found'')
      | Some food \<Rightarrow> Inr food)"

text \<open>
  The keys of \<^verbatim>\<open>{k: v for k, v in food_update.dict().items() if v is not None}\<close>; the
  values stay in the payload, where a field that is None is a key that is not there.
\<close>

definition update_data :: "food_update \<Rightarrow> string list" where
  "update_data u =
     map fst (filter (\<lambda>(k, is_none). \<not> is_none)
       [(''barcode'', upd_barcode u = None), (''name'', upd_name u = None),
        (''brand'', upd_brand u = None), (''category'', upd_category u = None),
        (''calories'', upd_calories u = None), (''protein'', upd_protein u = None),
        (''fat'', upd_fat u = None), (''carbs'', upd_carbs u = None),
        (''fiber'', upd_fiber u = None), (''sugars'', upd_sugars u = None),
        (''sodium'', upd_sodium u = None), (''allergens'', upd_allergens u = None),
        (''expiry_date'', upd_expiry_date u = None), (''quantity'', upd_quantity u = None),
        (''location'', upd_location u = None)])"

definition update_food_endpoint :: "database \<Rightarrow> nat \<Rightarrow> food_update \<Rightarrow> nat \<Rightarrow> (exn + food_item) \<times> database" where
  "update_food_endpoint db i u now =
     (if update_data u = [] then (Inl (HTTPException 400 ''No update data provided''), db)
      else
        (case update_food db i u now of
           (None, db') \<Rightarrow> (Inl (HTTPException 404 ''Food not found''), db')
         | (Some updated_food, db') \<Rightarrow> (Inr updated_food, db')))"

record quantity_update_request =
  quantity_change :: int
  action :: string

definition update_quantity_endpoint :: "database \<Rightarrow> nat \<Rightarrow> quantity_update_request \<Rightarrow> nat \<Rightarrow> (exn + food_item) \<times> database" where
  "update_quantity_endpoint db i request now =
     (case update_quantity db i (quantity_change request) (action request) now of
        (None, db') \<Rightarrow> (Inl (HTTPException 404 ''Food not found''), db')
      | (Some updated_food, db') \<Rightarrow> (Inr updated_food, db'))"

definition delete_food_by_barcode_endpoint :: "database \<Rightarrow> string \<Rightarrow> (exn + (string \<times> json) list) \<times> database" where
  "delete_food_by_barcode_endpoint db b =
     (case delete_food_by_barcode db b of
        (success, db') \<Rightarrow>
          if success = 0 then (Inl (HTTPException 404 ''No food items found with this barcode''), db')
          else (Inr [(''message'', JStr (''All food items with barcode '' @ b @ '' have been deleted''))], db'))"

text \<open>
  The paginated reads. The functions of \<^verbatim>\<open>crud.py\<close> that run the query are arguments:
  \<open>get_all_foods\<close>, \<open>search_foods\<close>, \<open>get_nutrition_logs\<close> and \<open>get_expiring_foods\<close>.
\<close>

definition get_foods_endpoint :: "(database \<Rightarrow> int \<Rightarrow> int \<Rightarrow> 'r) \<Rightarrow> database \<Rightarrow> int option \<Rightarrow> int option \<Rightarrow> request_validation_error + 'r" where
  "get_foods_endpoint get_all_foods db skip limit =
     (let s = query_default 0 skip; l = query_default 100 limit;
          errors = check_ge ''skip'' 0 s @ check_ge ''limit'' 1 l @ check_le ''limit'' 1000 l
      in if errors \<noteq> [] then Inl (RequestValidationError errors)
         else Inr (get_all_foods db s l))"

definition search_foods_endpoint :: "(database \<Rightarrow> string \<Rightarrow> int \<Rightarrow> int \<Rightarrow> 'r) \<Rightarrow> database \<Rightarrow> string option \<Rightarrow> int option \<Rightarrow> int option \<Rightarrow> request_validation_error + 'r" where
  "search_foods_endpoint search_foods db q skip limit =
     (let s = query_default 0 skip; l = query_default 100 limit;
          errors = (if q = None then [''q''] else []) @
                   check_ge ''skip'' 0 s @ check_ge ''limit'' 1 l @ check_le ''limit'' 1000 l
      in if errors \<noteq> [] then Inl (RequestValidationError errors)
         else Inr (search_foods db (the q) s l))"

definition get_nutrition_logs_endpoint :: "(database \<Rightarrow> string option \<Rightarrow> int \<Rightarrow> int \<Rightarrow> 'r) \<Rightarrow> database \<Rightarrow> string option \<Rightarrow> int option \<Rightarrow> int option \<Rightarrow> request_validation_error + 'r" where
  "get_nutrition_logs_endpoint get_nutrition_logs db food skip limit =
     (let s = query_default 0 skip; l = query_default 100 limit;
          errors = check_ge ''skip'' 0 s @ check_ge ''limit'' 1 l @ check_le ''limit'' 1000 l
      in if errors \<noteq> [] then Inl (RequestValidationError errors)
         else Inr (get_nutrition_logs db food s l))"

definition get_expiring_foods_endpoint :: "(database \<Rightarrow> int \<Rightarrow> 'r) \<Rightarrow> database \<Rightarrow> int option \<Rightarrow> request_validation_error + 'r" where
  "get_expiring_foods_endpoint get_expiring_foods db days_ahead =
     (let d = query_default 7 days_ahead;
          errors = check_ge ''days_ahead'' 1 d @ check_le ''days_ahead'' 365 d
      in if errors \<noteq> [] then Inl (RequestValidationError errors)
         else Inr (get_expiring_foods db d))"

definition get_low_stock_foods_endpoint :: "database \<Rightarrow> int option \<Rightarrow> request_validation_error + food_item list" where
  "get_low_stock_foods_endpoint db threshold =
     (let t = query_default 5 threshold;
          errors = check_ge ''threshold'' 0 t
      in if errors \<noteq> [] then Inl (RequestValidationError errors)
         else Inr (get_low_stock_foods db t))"

text \<open>
  \<^verbatim>\<open>bulk_import_endpoint\<close>. The argument \<open>bulk_import_from_dataframe\<close> stands for
  the body of the \<^verbatim>\<open>try\<close> block, whose work is done by the importer
  \<^verbatim>\<open>crud.bulk_import_from_dataframe\<close>: it returns the report or raises. Every
  exception is caught, logged, and raised again as an HTTPException 500 whose detail
  ends with the text of the exception.
\<close>

definition bulk_import_endpoint :: "(row list \<Rightarrow> exn + 'r) \<Rightarrow> row list \<Rightarrow> (exn + 'r) \<times> log_line list" where
  "bulk_import_endpoint bulk_import_from_dataframe import_data =
     (case bulk_import_from_dataframe import_data of
        Inr results \<Rightarrow> (Inr results, [])
      | Inl e \<Rightarrow>
          (Inl (HTTPException 500 (''Bulk import failed: '' @ str_exn e)),
           [(ERROR, ''Bulk import error: '' @ str_exn e)]))"

text \<open>
  The error handlers. Each returns an \<^verbatim>\<open>ErrorResponse\<close>, a class of
  \<^verbatim>\<open>schemas.py\<close> built from the three fields below; the first is registered for
  HTTPException and is given its status code and detail, the second for every other
  exception.
\<close>

record error_response =
  detail :: string
  error_code :: string
  timestamp :: nat

definition http_exception_handler :: "nat \<Rightarrow> string \<Rightarrow> nat \<Rightarrow> error_response" where
  "http_exception_handler status_code exc_detail now =
     \<lparr>detail = exc_detail, error_code = str_nat status_code, timestamp = now\<rparr>"

definition general_exception_handler :: "exn \<Rightarrow> nat \<Rightarrow> error_response \<times> log_line list" where
  "general_exception_handler exc now =
     (\<lparr>detail = ''Internal server error'', error_code = ''500'', timestamp = now\<rparr>,
      [(ERROR, ''Unhandled exception: '' @ str_exn exc)])"

section \<open>Notions used to state the properties\<close>

text \<open>
  The column \<open>k\<close> of a row of the batch is missing or empty: the key is not in the row,
  or its value is None, NaN, or a value that Python takes for false (the empty string
  among them).
\<close>

definition lacks :: "string \<Rightarrow> row \<Rightarrow> bool" where
  "lacks k item = (case map_of item k of None \<Rightarrow> True | Some v \<Rightarrow> v = VNaN \<or> \<not> truthy v)"

text \<open>
  No value of the row makes the test \<^verbatim>\<open>if pd.isna(value)\<close> raise: none is a list of
  two or more elements, nor, from NumPy 2.2 on, an empty list.
\<close>

definition nan_test_passes :: "numpy_version \<Rightarrow> row \<Rightarrow> bool" where
  "nan_test_passes np item =
     list_all (\<lambda>kv. case isna np (snd kv) of Inl e \<Rightarrow> False | Inr b \<Rightarrow> True) item"

text \<open>What the NaN loop leaves of a value, and what the \<^verbatim>\<open>expiry_date\<close> block leaves.\<close>

definition nan_to_none :: "pyval \<Rightarrow> pyval" where
  "nan_to_none v = (if v = VNone \<or> v = VNaN then VNone else v)"

definition checked_expiry :: "pyval \<Rightarrow> pyval" where
  "checked_expiry v =
     (if truthy v then (case v of VStr s \<Rightarrow> (if strptime_ymd s = None then VNone else v) | _ \<Rightarrow> VNone)
      else v)"

text \<open>The payload of UpdateFood in which every field is null, as the empty payload is read.\<close>

definition empty_update :: food_update where
  "empty_update =
     \<lparr>upd_barcode = None, upd_name = None, upd_brand = None, upd_category = None,
      upd_calories = None, upd_protein = None, upd_fat = None, upd_carbs = None,
      upd_fiber = None, upd_sugars = None, upd_sodium = None, upd_allergens = None,
      upd_expiry_date = None, upd_quantity = None, upd_location = None\<rparr>"

text \<open>Food fields with a barcode, a name and a quantity, for the examples.\<close>

definition plain_food :: "string \<Rightarrow> string \<Rightarrow> int \<Rightarrow> food_fields" where
  "plain_food b n q =
     \<lparr>barcode = b, name = Some n, brand = None, category = None, calories = None,
      protein = None, fat = None, carbs = None, fiber = None, sugars = None, sodium = None,
      allergens = [], expiry_date = None, quantity = q, location = None\<rparr>"

text \<open>A database with one food, of quantity 3, for the examples.\<close>

definition stock_db :: database where
  "stock_db =
     \<lparr>foods = [\<lparr>fid = 0, food_data = plain_food ''1'' ''A'' 3, created_at = 0, updated_at = 0\<rparr>],
      nutrition_logs = [], next_id = 1\<rparr>"

text \<open>A database in which three foods share the barcode X.\<close>

definition three_x_db :: database where
  "three_x_db =
     \<lparr>foods = [\<lparr>fid = 0, food_data = plain_food ''X'' ''A'' 1, created_at = 0, updated_at = 0\<rparr>,
               \<lparr>fid = 1, food_data = plain_food ''X'' ''B'' 2, created_at = 1, updated_at = 1\<rparr>,
               \<lparr>fid = 2, food_data = plain_food ''X'' ''C'' 3, created_at = 2, updated_at = 2\<rparr>],
      nutrition_logs = [], next_id = 3\<rparr>"

text \<open>A database with one food of quantity -5.\<close>

definition negative_db :: database where
  "negative_db =
     \<lparr>foods = [\<lparr>fid = 0, food_data = plain_food ''1'' ''A'' (- 5), created_at = 0, updated_at = 0\<rparr>],
      nutrition_logs = [], next_id = 1\<rparr>"

text \<open>The bounds declared for the parameters of the paginated reads, defaults included.\<close>

definition page_in_bounds :: "int option \<Rightarrow> int option \<Rightarrow> bool" where
  "page_in_bounds skip limit =
     (0 \<le> query_default 0 skip \<and> 1 \<le> query_default 100 limit \<and> query_default 100 limit \<le> 1000)"

definition days_in_bounds :: "int option \<Rightarrow> bool" where
  "days_in_bounds days_ahead = (1 \<le> query_default 7 days_ahead \<and> query_default 7 days_ahead \<le> 365)"

section \<open>The import script aborts the batch at the first row that raises\<close>

lemma isna_Inr: "isna np v = Inr b \<Longrightarrow> b = (v = VNone \<or> v = VNaN)"
  by (cases v) (auto split: if_splits)

lemma isna_ValueError: "isna np v = Inl e \<Longrightarrow> \<exists>m. e = ValueError m"
  by (cases v) (auto split: if_splits)

lemma handle_nan_map_of:
  "handle_nan np item = Inr item' \<Longrightarrow> map_of item' k = map_option nan_to_none (map_of item k)"
proof (induction item arbitrary: item')
  case Nil
  then show ?case by simp
next
  case (Cons kv kvs)
  obtain key v where kv: "kv = (key, v)" by (cases kv)
  from Cons.prems kv obtain b kvs' where
    b: "isna np v = Inr b" and rest: "handle_nan np kvs = Inr kvs'"
    and item': "item' = (key, if b then VNone else v) # kvs'"
    by (auto split: sum.splits)
  from isna_Inr [OF b] have "(if b then VNone else v) = nan_to_none v"
    by (auto simp: nan_to_none_def)
  with Cons.IH [OF rest] kv item' show ?case by simp
qed

lemma handle_nan_missing:
  "handle_nan np item = Inr item' \<Longrightarrow> missing k item' = lacks k item"
  by (auto simp: missing_def lacks_def handle_nan_map_of nan_to_none_def split: option.splits)

lemma handle_nan_ok_iff:
  "(\<exists>n. handle_nan np item = Inr n) \<longleftrightarrow> nan_test_passes np item"
  by (induction item) (auto simp: nan_test_passes_def split: sum.splits)

lemma handle_nan_ValueError: "handle_nan np item = Inl e \<Longrightarrow> \<exists>m. e = ValueError m"
  by (induction item) (auto split: sum.splits dest: isna_ValueError)

lemma prepare_item_Inr_iff:
  "(\<exists>item'. prepare_item np item = Inr item') \<longleftrightarrow>
     nan_test_passes np item \<and> \<not> lacks ''barcode'' item \<and> \<not> lacks ''name'' item"
  by (auto simp: prepare_item_def handle_nan_missing handle_nan_ok_iff [symmetric] split: sum.splits)

lemma prepare_item_ValueError: "prepare_item np item = Inl e \<Longrightarrow> \<exists>m. e = ValueError m"
  by (auto simp: prepare_item_def split: sum.splits if_splits dest: handle_nan_ValueError)

lemma prepare_item_barcode:
  assumes "nan_test_passes np item" and "lacks ''barcode'' item"
  shows "prepare_item np item = Inl (ValueError ''barcode is required for all items'')"
proof -
  from assms(1) obtain n where "handle_nan np item = Inr n"
    using handle_nan_ok_iff by blast
  with assms(2) show ?thesis
    by (simp add: prepare_item_def handle_nan_missing)
qed

lemma prepare_item_name:
  assumes "nan_test_passes np item" and "\<not> lacks ''barcode'' item" and "lacks ''name'' item"
  shows "prepare_item np item = Inl (ValueError ''name is required for all items'')"
proof -
  from assms(1) obtain n where "handle_nan np item = Inr n"
    using handle_nan_ok_iff by blast
  with assms(2,3) show ?thesis
    by (simp add: prepare_item_def handle_nan_missing)
qed

lemma prepare_food_data_Inr_iff:
  "prepare_food_data np data = Inr out \<longleftrightarrow>
     list_all2 (\<lambda>item item'. prepare_item np item = Inr item') data out"
proof (induction data arbitrary: out)
  case Nil
  then show ?case by auto
next
  case (Cons item data)
  show ?case
    by (auto simp: list_all2_Cons1 Cons.IH [symmetric] split: sum.splits)
qed

lemma prepare_food_data_first_failure:
  "prepare_food_data np pre = Inr pre' \<Longrightarrow> prepare_item np bad = Inl e \<Longrightarrow>
     prepare_food_data np (pre @ bad # post) = Inl e"
  by (induction pre arbitrary: pre') (auto split: sum.splits)

lemma prepare_food_data_ok_iff:
  "(\<exists>out. prepare_food_data np data = Inr out) \<longleftrightarrow>
     (\<forall>item \<in> set data. \<exists>item'. prepare_item np item = Inr item')"
  by (induction data) (auto split: sum.splits)

lemma prepare_food_data_ValueError:
  "prepare_food_data np data = Inl e \<Longrightarrow> \<exists>m. e = ValueError m"
  by (induction data) (auto split: sum.splits dest: prepare_item_ValueError)

lemma prepare_food_data_nth:
  "prepare_food_data np data = Inr out \<Longrightarrow> i < length data \<Longrightarrow>
     prepare_item np (data ! i) = Inr (out ! i)"
  by (auto simp: prepare_food_data_Inr_iff dest: list_all2_nthD)

lemma prepare_food_data_length:
  "prepare_food_data np data = Inr out \<Longrightarrow> length out = length data"
  by (simp add: prepare_food_data_Inr_iff list_all2_lengthD)

lemmas prepare_row_defs =
  prepare_item_def missing_def default_quantity_def allergens_to_list_def check_expiry_date_def

text \<open>
  Claim C1, as the specification states it, fails: the second row of this batch of two has
  no barcode, and \<^verbatim>\<open>prepare_food_data\<close> raises ValueError for the whole batch, under
  either version of NumPy. The first row, which is valid, is not returned either, and the
  message is not "missing required field".
\<close>

theorem batch_not_aborted_counterexample:
  "prepare_food_data Before_2_2
     [[(''barcode'', VStr ''1''), (''name'', VStr ''A'')], [(''name'', VStr ''B'')]] =
   Inl (ValueError ''barcode is required for all items'') \<and>
   prepare_food_data From_2_2
     [[(''barcode'', VStr ''1''), (''name'', VStr ''A'')], [(''name'', VStr ''B'')]] =
   Inl (ValueError ''barcode is required for all items'')"
  by (simp add: prepare_row_defs)

text \<open>
  Claim C1, amended. A row whose barcode or name is missing or empty makes
  \<^verbatim>\<open>prepare_food_data\<close> raise a ValueError, so that no row of the batch is returned.
  When the NaN test passes on that row, and the rows before it pass the NaN test and have
  barcode and name, the exception is ValueError "barcode is required for all items" if
  the barcode of the row is missing or empty, and ValueError
  "name is required for all items" if the row has its barcode and the name is missing or
  empty. When the function returns, it returns one prepared row for each row of the
  batch, in order, and every row passes the NaN test and has its barcode and its name;
  and it does return when every row is so. \<^verbatim>\<open>bulk_import_endpoint\<close> answers with the
  report of the importer exactly when the importer returns one, and with an HTTPException
  500 when the importer raises.
\<close>

theorem prepare_food_data_aborts_batch:
  "((\<exists>item \<in> set data. lacks ''barcode'' item \<or> lacks ''name'' item) \<longrightarrow>
      (\<exists>m. prepare_food_data np data = Inl (ValueError m))) \<and>
   ((\<forall>item \<in> set pre.
        nan_test_passes np item \<and> \<not> lacks ''barcode'' item \<and> \<not> lacks ''name'' item) \<and>
    nan_test_passes np bad \<and> lacks ''barcode'' bad \<longrightarrow>
      prepare_food_data np (pre @ bad # post) = Inl (ValueError ''barcode is required for all items'')) \<and>
   ((\<forall>item \<in> set pre.
        nan_test_passes np item \<and> \<not> lacks ''barcode'' item \<and> \<not> lacks ''name'' item) \<and>
    nan_test_passes np bad \<and> \<not> lacks ''barcode'' bad \<and> lacks ''name'' bad \<longrightarrow>
      prepare_food_data np (pre @ bad # post) = Inl (ValueError ''name is required for all items'')) \<and>
   (prepare_food_data np data = Inr out \<longrightarrow>
      length out = length data \<and>
      (\<forall>i < length data. prepare_item np (data ! i) = Inr (out ! i) \<and>
         nan_test_passes np (data ! i) \<and>
         \<not> lacks ''barcode'' (data ! i) \<and> \<not> lacks ''name'' (data ! i))) \<and>
   ((\<forall>item \<in> set data.
        nan_test_passes np item \<and> \<not> lacks ''barcode'' item \<and> \<not> lacks ''name'' item) \<longrightarrow>
      (\<exists>out. prepare_food_data np data = Inr out)) \<and>
   (fst (bulk_import_endpoint importer data) = Inr report \<longleftrightarrow> importer data = Inr report) \<and>
   (importer data = Inl e \<longrightarrow>
      (\<exists>d. fst (bulk_import_endpoint importer data) = Inl (HTTPException 500 d)))"
proof (intro conjI impI)
  assume "\<exists>item \<in> set data. lacks ''barcode'' item \<or> lacks ''name'' item"
  then obtain item where "item \<in> set data" and "\<not> (\<exists>item'. prepare_item np item = Inr item')"
    by (auto simp: prepare_item_Inr_iff)
  then have "\<not> (\<exists>out. prepare_food_data np data = Inr out)"
    by (auto simp: prepare_food_data_ok_iff)
  then obtain e where "prepare_food_data np data = Inl e"
    by (cases "prepare_food_data np data") auto
  with prepare_food_data_ValueError [OF this]
  show "\<exists>m. prepare_food_data np data = Inl (ValueError m)"
    by auto
next
  assume h: "(\<forall>item \<in> set pre.
        nan_test_passes np item \<and> \<not> lacks ''barcode'' item \<and> \<not> lacks ''name'' item) \<and>
    nan_test_passes np bad \<and> lacks ''barcode'' bad"
  then have "\<forall>item \<in> set pre. \<exists>item'. prepare_item np item = Inr item'"
    by (simp add: prepare_item_Inr_iff)
  then obtain pre' where "prepare_food_data np pre = Inr pre'"
    using prepare_food_data_ok_iff by blast
  moreover from h have "prepare_item np bad = Inl (ValueError ''barcode is required for all items'')"
    by (simp add: prepare_item_barcode)
  ultimately show "prepare_food_data np (pre @ bad # post) =
      Inl (ValueError ''barcode is required for all items'')"
    by (rule prepare_food_data_first_failure)
next
  assume h: "(\<forall>item \<in> set pre.
        nan_test_passes np item \<and> \<not> lacks ''barcode'' item \<and> \<not> lacks ''name'' item) \<and>
    nan_test_passes np bad \<and> \<not> lacks ''barcode'' bad \<and> lacks ''name'' bad"
  then have "\<forall>item \<in> set pre. \<exists>item'. prepare_item np item = Inr item'"
    by (simp add: prepare_item_Inr_iff)
  then obtain pre' where "prepare_food_data np pre = Inr pre'"
    using prepare_food_data_ok_iff by blast
  moreover from h have "prepare_item np bad = Inl (ValueError ''name is required for all items'')"
    by (simp add: prepare_item_name)
  ultimately show "prepare_food_data np (pre @ bad # post) =
      Inl (ValueError ''name is required for all items'')"
    by (rule prepare_food_data_first_failure)
next
  assume ok: "prepare_food_data np data = Inr out"
  then show "length out = length data"
    by (rule prepare_food_data_length)
  show "\<forall>i < length data. prepare_item np (data ! i) = Inr (out ! i) \<and>
         nan_test_passes np (data ! i) \<and>
         \<not> lacks ''barcode'' (data ! i) \<and> \<not> lacks ''name'' (data ! i)"
  proof (intro allI impI)
    fix i assume "i < length data"
    with ok have "prepare_item np (data ! i) = Inr (out ! i)"
      by (rule prepare_food_data_nth)
    moreover from this have "nan_test_passes np (data ! i) \<and>
         \<not> lacks ''barcode'' (data ! i) \<and> \<not> lacks ''name'' (data ! i)"
      using prepare_item_Inr_iff [of np "data ! i"] by blast
    ultimately show "prepare_item np (data ! i) = Inr (out ! i) \<and>
         nan_test_passes np (data ! i) \<and>
         \<not> lacks ''barcode'' (data ! i) \<and> \<not> lacks ''name'' (data ! i)"
      by simp
  qed
next
  assume "\<forall>item \<in> set data.
        nan_test_passes np item \<and> \<not> lacks ''barcode'' item \<and> \<not> lacks ''name'' item"
  then show "\<exists>out. prepare_food_data np data = Inr out"
    by (simp add: prepare_food_data_ok_iff prepare_item_Inr_iff)
next
  show "fst (bulk_import_endpoint importer data) = Inr report \<longleftrightarrow> importer data = Inr report"
    by (auto simp: bulk_import_endpoint_def split: sum.splits)
next
  assume "importer data = Inl e"
  then show "\<exists>d. fst (bulk_import_endpoint importer data) = Inl (HTTPException 500 d)"
    by (simp add: bulk_import_endpoint_def)
qed

theorem prepare_food_data_aborts_batch_witness:
  "(\<exists>m. prepare_food_data From_2_2
           [[(''barcode'', VStr ''1''), (''name'', VStr ''A'')], [(''name'', VStr ''B'')]] =
         Inl (ValueError m)) \<and>
   prepare_food_data From_2_2
       ([[(''barcode'', VStr ''1''), (''name'', VStr ''A'')]] @ [(''name'', VStr ''B'')] #
        [[(''barcode'', VStr ''3''), (''name'', VStr ''C'')]]) =
     Inl (ValueError ''barcode is required for all items'') \<and>
   prepare_food_data From_2_2
       ([[(''barcode'', VStr ''1''), (''name'', VStr ''A'')]] @ [(''barcode'', VStr ''2''), (''name'', VNaN)] #
        [[(''barcode'', VStr ''3''), (''name'', VStr ''C'')]]) =
     Inl (ValueError ''name is required for all items'') \<and>
   prepare_item From_2_2 [(''barcode'', VStr ''1''), (''name'', VStr ''A'')] =
     Inr [(''barcode'', VStr ''1''), (''name'', VStr ''A''), (''quantity'', VInt 1)] \<and>
   (\<exists>out. prepare_food_data From_2_2
             [[(''barcode'', VStr ''1''), (''name'', VStr ''A'')],
              [(''barcode'', VStr ''3''), (''name'', VStr ''C'')]] = Inr out) \<and>
   (\<exists>d. fst (bulk_import_endpoint (\<lambda>d. Inl (Exception ''x'') :: exn + nat) []) =
        Inl (HTTPException 500 d))"
proof -
  let ?good = "[(''barcode'', VStr ''1''), (''name'', VStr ''A'')]"
  let ?good' = "[(''barcode'', VStr ''1''), (''name'', VStr ''A''), (''quantity'', VInt 1)]"
  let ?last = "[(''barcode'', VStr ''3''), (''name'', VStr ''C'')]"
  let ?b = "[(''name'', VStr ''B'')]"
  let ?n = "[(''barcode'', VStr ''2''), (''name'', VNaN)]"
  let ?imp = "\<lambda>d. Inl (Exception ''x'') :: exn + nat"
  have good: "nan_test_passes From_2_2 ?good \<and> \<not> lacks ''barcode'' ?good \<and> \<not> lacks ''name'' ?good"
    by (simp add: nan_test_passes_def lacks_def)
  have last: "nan_test_passes From_2_2 ?last \<and> \<not> lacks ''barcode'' ?last \<and> \<not> lacks ''name'' ?last"
    by (simp add: nan_test_passes_def lacks_def)
  have pre: "\<forall>item \<in> set [?good].
      nan_test_passes From_2_2 item \<and> \<not> lacks ''barcode'' item \<and> \<not> lacks ''name'' item"
    using good by simp
  have all: "\<forall>item \<in> set [?good, ?last].
      nan_test_passes From_2_2 item \<and> \<not> lacks ''barcode'' item \<and> \<not> lacks ''name'' item"
    using good last by simp
  have b: "nan_test_passes From_2_2 ?b" "lacks ''barcode'' ?b"
    by (simp_all add: nan_test_passes_def lacks_def)
  have n: "nan_test_passes From_2_2 ?n" "\<not> lacks ''barcode'' ?n" "lacks ''name'' ?n"
    by (simp_all add: nan_test_passes_def lacks_def)
  have some: "\<exists>item \<in> set [?good, ?b]. lacks ''barcode'' item \<or> lacks ''name'' item"
    using b(2) by simp
  have run: "prepare_food_data From_2_2 [?good] = Inr [?good']"
    by (simp add: prepare_row_defs)
  have imp: "?imp [] = Inl (Exception ''x'')"
    by simp
  note T1 = prepare_food_data_aborts_batch
              [where np = From_2_2 and data = "[?good, ?b]" and pre = "[?good]" and bad = ?b
                 and post = "[?last]" and importer = ?imp and e = "Exception ''x''"]
  note T2 = prepare_food_data_aborts_batch
              [where np = From_2_2 and data = "[?good]" and out = "[?good']" and pre = "[?good]"
                 and bad = ?n and post = "[?last]" and importer = ?imp and e = "Exception ''x''"]
  note T3 = prepare_food_data_aborts_batch
              [where np = From_2_2 and data = "[?good, ?last]" and importer = ?imp
                 and e = "Exception ''x''"]
  have c1: "\<exists>m. prepare_food_data From_2_2 [?good, ?b] = Inl (ValueError m)"
    using T1 some by blast
  have c2: "prepare_food_data From_2_2 ([?good] @ ?b # [?last]) =
              Inl (ValueError ''barcode is required for all items'')"
    using T1 pre b by blast
  have c3: "prepare_food_data From_2_2 ([?good] @ ?n # [?last]) =
              Inl (ValueError ''name is required for all items'')"
    using T2 pre n by blast
  have "\<forall>i < length [?good]. prepare_item From_2_2 ([?good] ! i) = Inr ([?good'] ! i) \<and>
         nan_test_passes From_2_2 ([?good] ! i) \<and>
         \<not> lacks ''barcode'' ([?good] ! i) \<and> \<not> lacks ''name'' ([?good] ! i)"
    using T2 run by blast
  then have c4: "prepare_item From_2_2 ?good = Inr ?good'"
    by simp
  have c5: "\<exists>out. prepare_food_data From_2_2 [?good, ?last] = Inr out"
    using T3 all by blast
  have c6: "\<exists>d. fst (bulk_import_endpoint ?imp []) = Inl (HTTPException 500 d)"
    using prepare_food_data_aborts_batch
            [where data = "[]" and importer = ?imp and e = "Exception ''x''"] imp
    by blast
  from c1 c2 c3 c4 c5 c6 show ?thesis
    by (intro conjI)
qed

section \<open>An expiry date that does not parse\<close>

lemma map_of_default_quantity:
  "k \<noteq> ''quantity'' \<Longrightarrow> map_of (default_quantity item) k = map_of item k"
  by (simp add: default_quantity_def update_conv')

lemma map_of_allergens_to_list:
  "k \<noteq> ''allergens'' \<Longrightarrow> map_of (allergens_to_list item) k = map_of item k"
  by (simp add: allergens_to_list_def update_conv' split: option.splits pyval.splits)

lemma map_of_check_expiry_date:
  "map_of (check_expiry_date item) ''expiry_date'' = map_option checked_expiry (map_of item ''expiry_date'')"
  by (auto simp: check_expiry_date_def checked_expiry_def update_conv' split: option.splits pyval.splits)

lemma prepare_item_expiry_date:
  assumes "prepare_item np item = Inr item'"
  shows "map_of item' ''expiry_date'' =
           map_option (\<lambda>v. checked_expiry (nan_to_none v)) (map_of item ''expiry_date'')"
proof -
  from assms obtain n where n: "handle_nan np item = Inr n"
    and item': "item' = check_expiry_date (allergens_to_list (default_quantity n))"
    by (auto simp: prepare_item_def split: sum.splits if_splits)
  have "map_of item' ''expiry_date'' = map_option checked_expiry (map_of n ''expiry_date'')"
    by (simp add: item' map_of_check_expiry_date map_of_allergens_to_list map_of_default_quantity)
  also have "\<dots> = map_option (\<lambda>v. checked_expiry (nan_to_none v)) (map_of item ''expiry_date'')"
    by (simp add: handle_nan_map_of [OF n] option.map_comp comp_def)
  finally show ?thesis .
qed

lemma unparseable_to_none:
  assumes "truthy v" and "\<forall>s. v = VStr s \<longrightarrow> strptime_ymd s = None"
  shows "checked_expiry (nan_to_none v) = VNone"
  using assms by (cases v) (auto simp: checked_expiry_def nan_to_none_def)

lemma handle_nan_update_ok:
  "map_of item k = Some v \<Longrightarrow> isna np v = Inr b \<Longrightarrow>
     (\<exists>n. handle_nan np (AList.update k VNone item) = Inr n) \<longleftrightarrow>
     (\<exists>n. handle_nan np item = Inr n)"
  by (induction item) (auto split: sum.splits if_splits)

lemma lacks_update_other:
  "k \<noteq> k' \<Longrightarrow> lacks k (AList.update k' v item) = lacks k item"
  by (simp add: lacks_def update_conv')

lemma prepare_item_accepts_without_date:
  assumes "map_of item ''expiry_date'' = Some v" and "isna np v = Inr b"
  shows "(\<exists>item'. prepare_item np (AList.update ''expiry_date'' VNone item) = Inr item') \<longleftrightarrow>
         (\<exists>item'. prepare_item np item = Inr item')"
  by (simp add: prepare_item_Inr_iff handle_nan_ok_iff [symmetric] handle_nan_update_ok [OF assms]
      lacks_update_other)

lemma prepare_food_data_accepts_without_date:
  assumes "i < length data" and "map_of (data ! i) ''expiry_date'' = Some v" and "isna np v = Inr b"
  shows "(\<exists>out. prepare_food_data np (data[i := AList.update ''expiry_date'' VNone (data ! i)]) = Inr out) \<longleftrightarrow>
         (\<exists>out. prepare_food_data np data = Inr out)"
proof -
  let ?ok = "\<lambda>item. \<exists>item'. prepare_item np item = Inr item'"
  let ?data' = "data[i := AList.update ''expiry_date'' VNone (data ! i)]"
  have "(\<forall>j < length ?data'. ?ok (?data' ! j)) \<longleftrightarrow> (\<forall>j < length data. ?ok (data ! j))"
    using assms(1) prepare_item_accepts_without_date [OF assms(2,3)]
    by (auto simp: nth_list_update)
  then show ?thesis
    by (simp only: prepare_food_data_ok_iff all_set_conv_all_nth)
qed

lemma isna_no_long_list:
  "truthy v \<Longrightarrow> \<forall>xs. v = VList xs \<longrightarrow> length xs \<le> 1 \<Longrightarrow> \<exists>b. isna np v = Inr b"
  by (cases v) auto

lemma strptime_wrong_order: "strptime_ymd ''31-12-2024'' = None"
  by (simp add: strptime_ymd_def match_year_def digit_def)

text \<open>
  Claim C4, as the specification states it, fails on a value that is present and empty:
  the empty string does not parse as a date, and the row is prepared with its
  \<^verbatim>\<open>expiry_date\<close> still the empty string, not None, under either version of NumPy.
\<close>

theorem empty_expiry_date_counterexample:
  "strptime_ymd '''' = None \<and>
   prepare_food_data Before_2_2
       [[(''barcode'', VStr ''1''), (''name'', VStr ''A''), (''expiry_date'', VStr '''')]] =
     Inr [[(''barcode'', VStr ''1''), (''name'', VStr ''A''), (''expiry_date'', VStr ''''),
           (''quantity'', VInt 1)]] \<and>
   prepare_food_data From_2_2
       [[(''barcode'', VStr ''1''), (''name'', VStr ''A''), (''expiry_date'', VStr '''')]] =
     Inr [[(''barcode'', VStr ''1''), (''name'', VStr ''A''), (''expiry_date'', VStr ''''),
           (''quantity'', VInt 1)]]"
  by (simp add: prepare_row_defs strptime_ymd_def match_year_def)

text \<open>
  Claim C4, amended. When the \<^verbatim>\<open>expiry_date\<close> of row \<open>i\<close> of a batch is a non-empty
  string that does not parse as YYYY-MM-DD (or any other value that Python takes for
  true and that is not a list of two or more elements), the batch is accepted exactly
  when it is accepted with that \<^verbatim>\<open>expiry_date\<close> set to None, and in the prepared
  batch the \<^verbatim>\<open>expiry_date\<close> of row \<open>i\<close> is None: the date is never what fails a row.
  This holds under either version of NumPy.
\<close>

theorem unparseable_expiry_date_is_dropped:
  assumes "i < length data"
    and "map_of (data ! i) ''expiry_date'' = Some v"
    and "truthy v"
    and "\<forall>s. v = VStr s \<longrightarrow> strptime_ymd s = None"
    and "\<forall>xs. v = VList xs \<longrightarrow> length xs \<le> 1"
  shows "(\<forall>out. prepare_food_data np data = Inr out \<longrightarrow> map_of (out ! i) ''expiry_date'' = Some VNone) \<and>
         ((\<exists>out. prepare_food_data np data = Inr out) \<longleftrightarrow>
          (\<exists>out. prepare_food_data np (data[i := AList.update ''expiry_date'' VNone (data ! i)]) = Inr out))"
proof (intro conjI allI impI)
  fix out assume "prepare_food_data np data = Inr out"
  then have "prepare_item np (data ! i) = Inr (out ! i)"
    using assms(1) by (rule prepare_food_data_nth)
  then have "map_of (out ! i) ''expiry_date'' = Some (checked_expiry (nan_to_none v))"
    by (simp add: prepare_item_expiry_date assms(2))
  then show "map_of (out ! i) ''expiry_date'' = Some VNone"
    by (simp add: unparseable_to_none [OF assms(3,4)])
next
  from isna_no_long_list [OF assms(3,5)] obtain b where "isna np v = Inr b" ..
  from prepare_food_data_accepts_without_date [OF assms(1,2) this]
  show "(\<exists>out. prepare_food_data np data = Inr out) \<longleftrightarrow>
          (\<exists>out. prepare_food_data np (data[i := AList.update ''expiry_date'' VNone (data ! i)]) = Inr out)"
    by simp
qed

theorem unparseable_expiry_date_is_dropped_witness:
  "prepare_food_data From_2_2
       [[(''barcode'', VStr ''1''), (''name'', VStr ''A''), (''expiry_date'', VStr ''31-12-2024'')]] =
     Inr [[(''barcode'', VStr ''1''), (''name'', VStr ''A''), (''expiry_date'', VNone), (''quantity'', VInt 1)]] \<and>
   map_of ([[(''barcode'', VStr ''1''), (''name'', VStr ''A''), (''expiry_date'', VNone), (''quantity'', VInt 1)]] ! 0)
     ''expiry_date'' = Some VNone"
proof -
  let ?data = "[[(''barcode'', VStr ''1''), (''name'', VStr ''A''), (''expiry_date'', VStr ''31-12-2024'')]]"
  have h1: "(0::nat) < length ?data" by simp
  have h2: "map_of (?data ! 0) ''expiry_date'' = Some (VStr ''31-12-2024'')" by simp
  have h3: "truthy (VStr ''31-12-2024'')" by simp
  have h4: "\<forall>s. VStr ''31-12-2024'' = VStr s \<longrightarrow> strptime_ymd s = None"
    by (simp add: strptime_wrong_order)
  have h5: "\<forall>xs. VStr ''31-12-2024'' = VList xs \<longrightarrow> length xs \<le> 1" by simp
  have run: "prepare_food_data From_2_2 ?data =
     Inr [[(''barcode'', VStr ''1''), (''name'', VStr ''A''), (''expiry_date'', VNone), (''quantity'', VInt 1)]]"
    by (simp add: prepare_row_defs strptime_wrong_order)
  from unparseable_expiry_date_is_dropped [OF h1 h2 h3 h4 h5, of From_2_2] run
  show ?thesis by simp
qed

section \<open>The store: lookup and the identifier invariant\<close>

lemma get_food_by_id_None_iff:
  "get_food_by_id db i = None \<longleftrightarrow> i \<notin> fid ` set (foods db)"
  by (auto simp: get_food_by_id_def find_None_iff)

lemma get_food_by_id_Some:
  "get_food_by_id db i = Some f \<Longrightarrow> f \<in> set (foods db) \<and> fid f = i"
  by (auto simp: get_food_by_id_def find_Some_iff)

lemma find_modify_food:
  "(\<And>f. fid (g f) = fid f) \<Longrightarrow>
     find (\<lambda>f. fid f = i) (modify_food i g fs) = map_option g (find (\<lambda>f. fid f = i) fs)"
  by (induction fs) (auto simp: modify_food_def)

lemma wf_db_empty: "wf_db empty_db"
  by (simp add: wf_db_def empty_db_def)

lemma wf_db_create_food:
  "wf_db db \<Longrightarrow> create_food db food now = Inr (item, db') \<Longrightarrow> wf_db db'"
  by (auto simp: wf_db_def create_food_def Let_def list_all_iff less_Suc_eq)

lemma wf_db_modify_food:
  "(\<And>f. fid (g f) = fid f) \<Longrightarrow> list_all (\<lambda>f. fid f < n) fs \<Longrightarrow>
     list_all (\<lambda>f. fid f < Suc n) (modify_food i g fs) \<and> list_all (\<lambda>f. fid f < n) (modify_food i g fs)"
  by (auto simp: modify_food_def list_all_iff less_Suc_eq)

lemma wf_db_update_food:
  "wf_db db \<Longrightarrow> update_food db i u now = (r, db') \<Longrightarrow> wf_db db'"
  by (auto simp: wf_db_def update_food_def Let_def wf_db_modify_food split: option.splits)

lemma wf_db_update_quantity:
  "wf_db db \<Longrightarrow> update_quantity db i delta act now = (r, db') \<Longrightarrow> wf_db db'"
  by (auto simp: wf_db_def update_quantity_def Let_def wf_db_modify_food split: option.splits)

lemma wf_db_delete_food_by_barcode:
  "wf_db db \<Longrightarrow> delete_food_by_barcode db b = (n, db') \<Longrightarrow> wf_db db'"
  by (auto simp: wf_db_def delete_food_by_barcode_def list_all_iff)

section \<open>Quantity adjustment\<close>

text \<open>
  Claim C2. For an identifier that references no FoodItem, the endpoint answers 404
  "Food not found" and returns the database as it was: no quantity is changed and no
  NutritionLogEntry is created. When the food exists, the endpoint returns the updated
  item, the quantity of the food has grown by the delta, and exactly one
  NutritionLogEntry with the same delta and action has been appended. Every outcome is
  one of the two: the database is unchanged, or both changes are in it.
\<close>

theorem update_quantity_endpoint_all_or_nothing:
  "(i \<notin> fid ` set (foods db) \<longrightarrow>
      update_quantity_endpoint db i request now = (Inl (HTTPException 404 ''Food not found''), db)) \<and>
   (\<forall>f. get_food_by_id db i = Some f \<longrightarrow>
      (\<exists>item db'.
         update_quantity_endpoint db i request now = (Inr item, db') \<and>
         get_food_by_id db' i = Some item \<and>
         quantity (food_data item) = quantity (food_data f) + quantity_change request \<and>
         foods db' =
           map (\<lambda>f. if fid f = i
                     then f\<lparr>food_data := (food_data f)\<lparr>quantity := quantity (food_data f) + quantity_change request\<rparr>,
                            updated_at := now\<rparr>
                     else f) (foods db) \<and>
         nutrition_logs db' =
           nutrition_logs db @
             [\<lparr>log_id = next_id db, food_id = i, log_quantity = quantity_change request,
               log_action = action request, log_timestamp = now\<rparr>])) \<and>
   (\<forall>r db'. update_quantity_endpoint db i request now = (r, db') \<longrightarrow>
      (r = Inl (HTTPException 404 ''Food not found'') \<and> db' = db) \<or>
      ((\<exists>item. r = Inr item) \<and> foods db' \<noteq> [] \<and>
       length (nutrition_logs db') = Suc (length (nutrition_logs db))))"
proof (intro conjI allI impI)
  assume "i \<notin> fid ` set (foods db)"
  then have "get_food_by_id db i = None"
    by (simp add: get_food_by_id_None_iff)
  then show "update_quantity_endpoint db i request now = (Inl (HTTPException 404 ''Food not found''), db)"
    by (simp add: update_quantity_endpoint_def update_quantity_def)
next
  fix f assume f: "get_food_by_id db i = Some f"
  let ?g = "\<lambda>f. f\<lparr>food_data := (food_data f)\<lparr>quantity := quantity (food_data f) + quantity_change request\<rparr>,
                    updated_at := now\<rparr>"
  let ?db' = "db\<lparr>foods := modify_food i ?g (foods db),
                  nutrition_logs := nutrition_logs db @
                    [\<lparr>log_id = next_id db, food_id = i, log_quantity = quantity_change request,
                      log_action = action request, log_timestamp = now\<rparr>],
                  next_id := Suc (next_id db)\<rparr>"
  have run: "update_quantity_endpoint db i request now = (Inr (?g f), ?db')"
    using f by (simp add: update_quantity_endpoint_def update_quantity_def)
  have "get_food_by_id ?db' i = Some (?g f)"
    using f by (simp add: get_food_by_id_def find_modify_food)
  with run show "\<exists>item db'.
         update_quantity_endpoint db i request now = (Inr item, db') \<and>
         get_food_by_id db' i = Some item \<and>
         quantity (food_data item) = quantity (food_data f) + quantity_change request \<and>
         foods db' =
           map (\<lambda>f. if fid f = i
                     then f\<lparr>food_data := (food_data f)\<lparr>quantity := quantity (food_data f) + quantity_change request\<rparr>,
                            updated_at := now\<rparr>
                     else f) (foods db) \<and>
         nutrition_logs db' =
           nutrition_logs db @
             [\<lparr>log_id = next_id db, food_id = i, log_quantity = quantity_change request,
               log_action = action request, log_timestamp = now\<rparr>]"
    by (simp add: modify_food_def)
next
  fix r db' assume run: "update_quantity_endpoint db i request now = (r, db')"
  show "(r = Inl (HTTPException 404 ''Food not found'') \<and> db' = db) \<or>
      ((\<exists>item. r = Inr item) \<and> foods db' \<noteq> [] \<and>
       length (nutrition_logs db') = Suc (length (nutrition_logs db)))"
  proof (cases "get_food_by_id db i")
    case None
    with run show ?thesis
      by (auto simp: update_quantity_endpoint_def update_quantity_def)
  next
    case (Some f)
    then have "foods db \<noteq> []"
      by (auto dest: get_food_by_id_Some)
    with run Some show ?thesis
      by (auto simp: update_quantity_endpoint_def update_quantity_def modify_food_def)
  qed
qed


theorem update_quantity_endpoint_all_or_nothing_witness:
  "update_quantity_endpoint stock_db 5 \<lparr>quantity_change = - 5, action = ''consumed''\<rparr> 9 =
     (Inl (HTTPException 404 ''Food not found''), stock_db) \<and>
   (\<exists>item db'.
      update_quantity_endpoint stock_db 0 \<lparr>quantity_change = - 5, action = ''consumed''\<rparr> 9 = (Inr item, db') \<and>
      quantity (food_data item) = - 2 \<and>
      nutrition_logs db' =
        [\<lparr>log_id = 1, food_id = 0, log_quantity = - 5, log_action = ''consumed'', log_timestamp = 9\<rparr>])"
proof -
  let ?req = "\<lparr>quantity_change = - 5, action = ''consumed''\<rparr>"
  let ?f = "\<lparr>fid = 0, food_data = plain_food ''1'' ''A'' 3, created_at = 0, updated_at = 0\<rparr>"
  have absent: "5 \<notin> fid ` set (foods stock_db)"
    by (simp add: stock_db_def)
  have present: "get_food_by_id stock_db 0 = Some ?f"
    by (simp add: stock_db_def get_food_by_id_def)
  have c1: "update_quantity_endpoint stock_db 5 ?req 9 = (Inl (HTTPException 404 ''Food not found''), stock_db)"
    using update_quantity_endpoint_all_or_nothing [where db = stock_db and i = 5 and request = ?req and now = 9]
      absent by blast
  from update_quantity_endpoint_all_or_nothing [where db = stock_db and i = 0 and request = ?req and now = 9]
    present
  obtain item db' where
    "update_quantity_endpoint stock_db 0 ?req 9 = (Inr item, db')"
    "quantity (food_data item) = quantity (food_data ?f) + quantity_change ?req"
    "nutrition_logs db' =
       nutrition_logs stock_db @
         [\<lparr>log_id = next_id stock_db, food_id = 0, log_quantity = quantity_change ?req,
           log_action = action ?req, log_timestamp = 9\<rparr>]"
    by blast
  then have c2: "\<exists>item db'.
      update_quantity_endpoint stock_db 0 ?req 9 = (Inr item, db') \<and>
      quantity (food_data item) = - 2 \<and>
      nutrition_logs db' =
        [\<lparr>log_id = 1, food_id = 0, log_quantity = - 5, log_action = ''consumed'', log_timestamp = 9\<rparr>]"
    by (simp add: stock_db_def plain_food_def)
  from c1 c2 show ?thesis ..
qed

section \<open>Deleting by barcode\<close>

text \<open>
  Claim C3, as the specification states it, fails: three rows share the barcode X, the
  store deletes the three and counts 3, and the response of the endpoint is the single
  field \<^verbatim>\<open>message\<close>; the count is not in it.
\<close>

theorem delete_by_barcode_count_counterexample:
  "delete_food_by_barcode three_x_db ''X'' = (3, three_x_db\<lparr>foods := []\<rparr>) \<and>
   delete_food_by_barcode_endpoint three_x_db ''X'' =
     (Inr [(''message'', JStr ''All food items with barcode X have been deleted'')],
      three_x_db\<lparr>foods := []\<rparr>) \<and>
   map_of [(''message'', JStr ''All food items with barcode X have been deleted'')] ''count'' = None"
  by (simp add: delete_food_by_barcode_endpoint_def delete_food_by_barcode_def three_x_db_def plain_food_def)

text \<open>
  Claim C3, amended. \<^verbatim>\<open>delete_food_by_barcode_endpoint\<close> deletes every row with the
  barcode and keeps the others. When no row matches it answers 404
  "No food items found with this barcode" and leaves the database as it was; otherwise
  it answers with the message "All food items with barcode ... have been deleted",
  which does not carry the count, and a second call with the same barcode answers 404.
  The count of deleted rows is what the store returns to the endpoint.
\<close>

theorem delete_by_barcode_message:
  "((\<forall>f \<in> set (foods db). barcode (food_data f) \<noteq> b) \<longrightarrow>
      delete_food_by_barcode_endpoint db b =
        (Inl (HTTPException 404 ''No food items found with this barcode''), db)) \<and>
   ((\<exists>f \<in> set (foods db). barcode (food_data f) = b) \<longrightarrow>
      delete_food_by_barcode_endpoint db b =
        (Inr [(''message'', JStr (''All food items with barcode '' @ b @ '' have been deleted''))],
         db\<lparr>foods := filter (\<lambda>f. barcode (food_data f) \<noteq> b) (foods db)\<rparr>) \<and>
      delete_food_by_barcode_endpoint
          (db\<lparr>foods := filter (\<lambda>f. barcode (food_data f) \<noteq> b) (foods db)\<rparr>) b =
        (Inl (HTTPException 404 ''No food items found with this barcode''),
         db\<lparr>foods := filter (\<lambda>f. barcode (food_data f) \<noteq> b) (foods db)\<rparr>)) \<and>
   fst (delete_food_by_barcode db b) = length (filter (\<lambda>f. barcode (food_data f) = b) (foods db)) \<and>
   (\<forall>r db'. delete_food_by_barcode_endpoint db b = (r, db') \<longrightarrow>
      (\<forall>f \<in> set (foods db'). barcode (food_data f) \<noteq> b) \<and>
      filter (\<lambda>f. barcode (food_data f) \<noteq> b) (foods db') =
        filter (\<lambda>f. barcode (food_data f) \<noteq> b) (foods db) \<and>
      nutrition_logs db' = nutrition_logs db)"
proof (intro conjI allI impI)
  assume none: "\<forall>f \<in> set (foods db). barcode (food_data f) \<noteq> b"
  then have "filter (\<lambda>f. barcode (food_data f) = b) (foods db) = []"
    and "filter (\<lambda>f. barcode (food_data f) \<noteq> b) (foods db) = foods db"
    by (simp_all add: filter_empty_conv filter_id_conv)
  then show "delete_food_by_barcode_endpoint db b =
        (Inl (HTTPException 404 ''No food items found with this barcode''), db)"
    by (simp add: delete_food_by_barcode_endpoint_def delete_food_by_barcode_def)
next
  assume some: "\<exists>f \<in> set (foods db). barcode (food_data f) = b"
  then have "filter (\<lambda>f. barcode (food_data f) = b) (foods db) \<noteq> []"
    by (simp add: filter_empty_conv)
  then show "delete_food_by_barcode_endpoint db b =
        (Inr [(''message'', JStr (''All food items with barcode '' @ b @ '' have been deleted''))],
         db\<lparr>foods := filter (\<lambda>f. barcode (food_data f) \<noteq> b) (foods db)\<rparr>)"
    by (simp add: delete_food_by_barcode_endpoint_def delete_food_by_barcode_def)
  have "filter (\<lambda>f. barcode (food_data f) = b) (filter (\<lambda>f. barcode (food_data f) \<noteq> b) (foods db)) = []"
    by (simp add: filter_empty_conv)
  then show "delete_food_by_barcode_endpoint
          (db\<lparr>foods := filter (\<lambda>f. barcode (food_data f) \<noteq> b) (foods db)\<rparr>) b =
        (Inl (HTTPException 404 ''No food items found with this barcode''),
         db\<lparr>foods := filter (\<lambda>f. barcode (food_data f) \<noteq> b) (foods db)\<rparr>)"
    by (simp add: delete_food_by_barcode_endpoint_def delete_food_by_barcode_def)
next
  show "fst (delete_food_by_barcode db b) = length (filter (\<lambda>f. barcode (food_data f) = b) (foods db))"
    by (simp add: delete_food_by_barcode_def)
next
  fix r db' assume "delete_food_by_barcode_endpoint db b = (r, db')"
  then have db': "db' = db\<lparr>foods := filter (\<lambda>f. barcode (food_data f) \<noteq> b) (foods db)\<rparr>"
    by (auto simp: delete_food_by_barcode_endpoint_def delete_food_by_barcode_def split: if_splits)
  show "\<forall>f \<in> set (foods db'). barcode (food_data f) \<noteq> b"
    by (simp add: db')
  show "filter (\<lambda>f. barcode (food_data f) \<noteq> b) (foods db') =
        filter (\<lambda>f. barcode (food_data f) \<noteq> b) (foods db)"
    by (simp add: db')
  show "nutrition_logs db' = nutrition_logs db"
    by (simp add: db')
qed

theorem delete_by_barcode_message_witness:
  "delete_food_by_barcode_endpoint three_x_db ''Y'' =
     (Inl (HTTPException 404 ''No food items found with this barcode''), three_x_db) \<and>
   delete_food_by_barcode_endpoint three_x_db ''X'' =
     (Inr [(''message'', JStr (''All food items with barcode '' @ ''X'' @ '' have been deleted''))],
      three_x_db\<lparr>foods := filter (\<lambda>f. barcode (food_data f) \<noteq> ''X'') (foods three_x_db)\<rparr>) \<and>
   delete_food_by_barcode_endpoint
       (three_x_db\<lparr>foods := filter (\<lambda>f. barcode (food_data f) \<noteq> ''X'') (foods three_x_db)\<rparr>) ''X'' =
     (Inl (HTTPException 404 ''No food items found with this barcode''),
      three_x_db\<lparr>foods := filter (\<lambda>f. barcode (food_data f) \<noteq> ''X'') (foods three_x_db)\<rparr>)"
proof -
  have no_y: "\<forall>f \<in> set (foods three_x_db). barcode (food_data f) \<noteq> ''Y''"
    by (simp add: three_x_db_def plain_food_def)
  have some_x: "\<exists>f \<in> set (foods three_x_db). barcode (food_data f) = ''X''"
    by (simp add: three_x_db_def plain_food_def)
  show ?thesis
    using delete_by_barcode_message [where db = three_x_db and b = "''Y''"]
          delete_by_barcode_message [where db = three_x_db and b = "''X''"]
          no_y some_x
    by blast
qed

section \<open>Updating the fields of a food\<close>

lemma no_date_iff: "(\<forall>y m d. x \<noteq> Some (y, m, d)) \<longleftrightarrow> x = None"
  by (cases x) auto

lemma update_data_Nil:
  "update_data u = [] \<longleftrightarrow>
     upd_barcode u = None \<and> upd_name u = None \<and> upd_brand u = None \<and> upd_category u = None \<and>
     upd_calories u = None \<and> upd_protein u = None \<and> upd_fat u = None \<and> upd_carbs u = None \<and>
     upd_fiber u = None \<and> upd_sugars u = None \<and> upd_sodium u = None \<and> upd_allergens u = None \<and>
     upd_expiry_date u = None \<and> upd_quantity u = None \<and> upd_location u = None"
  unfolding update_data_def map_is_Nil_conv filter_empty_conv
  by (simp add: no_date_iff)

lemma update_data_empty_iff: "update_data u = [] \<longleftrightarrow> u = empty_update"
  unfolding update_data_Nil
  by (cases u) (auto simp: empty_update_def)

lemma apply_update_empty: "apply_update empty_update d = d"
  by (simp add: apply_update_def empty_update_def)

text \<open>
  Claim C5. For every identifier, UpdateFood with the payload in which every field is
  null (the empty payload) answers 400 "No update data provided" and changes nothing,
  whether the identifier exists or not. With a payload that has a field which is not
  null, the endpoint answers 404 "Food not found" when the identifier does not exist,
  and otherwise returns the food with the update applied, which replaces it in the
  database. In the update of the fields \<open>d\<close> by the payload \<open>u\<close>, a field that is null
  in \<open>u\<close> keeps its value, and a field that is not null takes the value of \<open>u\<close>.
\<close>

theorem update_food_endpoint_gates:
  "update_food_endpoint db i empty_update now =
     (Inl (HTTPException 400 ''No update data provided''), db) \<and>
   (u \<noteq> empty_update \<and> i \<notin> fid ` set (foods db) \<longrightarrow>
      update_food_endpoint db i u now = (Inl (HTTPException 404 ''Food not found''), db)) \<and>
   (u \<noteq> empty_update \<and> get_food_by_id db i = Some f \<longrightarrow>
      update_food_endpoint db i u now =
        (Inr (f\<lparr>food_data := apply_update u (food_data f), updated_at := now\<rparr>),
         db\<lparr>foods := map (\<lambda>f. if fid f = i
                                then f\<lparr>food_data := apply_update u (food_data f), updated_at := now\<rparr>
                                else f) (foods db)\<rparr>)) \<and>
   (upd_barcode u = None \<longrightarrow> barcode (apply_update u d) = barcode d) \<and>
   (upd_name u = None \<longrightarrow> name (apply_update u d) = name d) \<and>
   (upd_brand u = None \<longrightarrow> brand (apply_update u d) = brand d) \<and>
   (upd_category u = None \<longrightarrow> category (apply_update u d) = category d) \<and>
   (upd_calories u = None \<longrightarrow> calories (apply_update u d) = calories d) \<and>
   (upd_protein u = None \<longrightarrow> protein (apply_update u d) = protein d) \<and>
   (upd_fat u = None \<longrightarrow> fat (apply_update u d) = fat d) \<and>
   (upd_carbs u = None \<longrightarrow> carbs (apply_update u d) = carbs d) \<and>
   (upd_fiber u = None \<longrightarrow> fiber (apply_update u d) = fiber d) \<and>
   (upd_sugars u = None \<longrightarrow> sugars (apply_update u d) = sugars d) \<and>
   (upd_sodium u = None \<longrightarrow> sodium (apply_update u d) = sodium d) \<and>
   (upd_allergens u = None \<longrightarrow> allergens (apply_update u d) = allergens d) \<and>
   (upd_expiry_date u = None \<longrightarrow> expiry_date (apply_update u d) = expiry_date d) \<and>
   (upd_quantity u = None \<longrightarrow> quantity (apply_update u d) = quantity d) \<and>
   (upd_location u = None \<longrightarrow> location (apply_update u d) = location d) \<and>
   (\<forall>v. upd_barcode u = Some v \<longrightarrow> barcode (apply_update u d) = v) \<and>
   (\<forall>v. upd_name u = Some v \<longrightarrow> name (apply_update u d) = Some v) \<and>
   (\<forall>v. upd_brand u = Some v \<longrightarrow> brand (apply_update u d) = Some v) \<and>
   (\<forall>v. upd_category u = Some v \<longrightarrow> category (apply_update u d) = Some v) \<and>
   (\<forall>v. upd_calories u = Some v \<longrightarrow> calories (apply_update u d) = Some v) \<and>
   (\<forall>v. upd_protein u = Some v \<longrightarrow> protein (apply_update u d) = Some v) \<and>
   (\<forall>v. upd_fat u = Some v \<longrightarrow> fat (apply_update u d) = Some v) \<and>
   (\<forall>v. upd_carbs u = Some v \<longrightarrow> carbs (apply_update u d) = Some v) \<and>
   (\<forall>v. upd_fiber u = Some v \<longrightarrow> fiber (apply_update u d) = Some v) \<and>
   (\<forall>v. upd_sugars u = Some v \<longrightarrow> sugars (apply_update u d) = Some v) \<and>
   (\<forall>v. upd_sodium u = Some v \<longrightarrow> sodium (apply_update u d) = Some v) \<and>
   (\<forall>v. upd_allergens u = Some v \<longrightarrow> allergens (apply_update u d) = v) \<and>
   (\<forall>v. upd_expiry_date u = Some v \<longrightarrow> expiry_date (apply_update u d) = Some v) \<and>
   (\<forall>v. upd_quantity u = Some v \<longrightarrow> quantity (apply_update u d) = v) \<and>
   (\<forall>v. upd_location u = Some v \<longrightarrow> location (apply_update u d) = Some v)"
proof -
  have empty: "update_food_endpoint db i empty_update now =
     (Inl (HTTPException 400 ''No update data provided''), db)"
    by (simp add: update_food_endpoint_def update_data_empty_iff)
  have absent: "u \<noteq> empty_update \<and> i \<notin> fid ` set (foods db) \<longrightarrow>
      update_food_endpoint db i u now = (Inl (HTTPException 404 ''Food not found''), db)"
    by (simp add: update_food_endpoint_def update_data_empty_iff update_food_def
        get_food_by_id_None_iff [symmetric])
  have present: "u \<noteq> empty_update \<and> get_food_by_id db i = Some f \<longrightarrow>
      update_food_endpoint db i u now =
        (Inr (f\<lparr>food_data := apply_update u (food_data f), updated_at := now\<rparr>),
         db\<lparr>foods := map (\<lambda>f. if fid f = i
                                then f\<lparr>food_data := apply_update u (food_data f), updated_at := now\<rparr>
                                else f) (foods db)\<rparr>)"
    by (simp add: update_food_endpoint_def update_data_empty_iff update_food_def modify_food_def)
  have fields: "apply_update u d =
     \<lparr>barcode = (case upd_barcode u of None \<Rightarrow> barcode d | Some v \<Rightarrow> v),
      name = (case upd_name u of None \<Rightarrow> name d | Some v \<Rightarrow> Some v),
      brand = (case upd_brand u of None \<Rightarrow> brand d | Some v \<Rightarrow> Some v),
      category = (case upd_category u of None \<Rightarrow> category d | Some v \<Rightarrow> Some v),
      calories = (case upd_calories u of None \<Rightarrow> calories d | Some v \<Rightarrow> Some v),
      protein = (case upd_protein u of None \<Rightarrow> protein d | Some v \<Rightarrow> Some v),
      fat = (case upd_fat u of None \<Rightarrow> fat d | Some v \<Rightarrow> Some v),
      carbs = (case upd_carbs u of None \<Rightarrow> carbs d | Some v \<Rightarrow> Some v),
      fiber = (case upd_fiber u of None \<Rightarrow> fiber d | Some v \<Rightarrow> Some v),
      sugars = (case upd_sugars u of None \<Rightarrow> sugars d | Some v \<Rightarrow> Some v),
      sodium = (case upd_sodium u of None \<Rightarrow> sodium d | Some v \<Rightarrow> Some v),
      allergens = (case upd_allergens u of None \<Rightarrow> allergens d | Some v \<Rightarrow> v),
      expiry_date = (case upd_expiry_date u of None \<Rightarrow> expiry_date d | Some v \<Rightarrow> Some v),
      quantity = (case upd_quantity u of None \<Rightarrow> quantity d | Some v \<Rightarrow> v),
      location = (case upd_location u of None \<Rightarrow> location d | Some v \<Rightarrow> Some v)\<rparr>"
    by (rule apply_update_def)
  show ?thesis
    apply (intro conjI)
    apply (rule empty)
    apply (rule absent)
    apply (rule present)
    apply (simp_all add: fields)
    done
qed


theorem update_food_endpoint_gates_witness:
  "update_food_endpoint stock_db 5 (empty_update\<lparr>upd_quantity := Some 7\<rparr>) 9 =
     (Inl (HTTPException 404 ''Food not found''), stock_db) \<and>
   update_food_endpoint stock_db 0 (empty_update\<lparr>upd_quantity := Some 7\<rparr>) 9 =
     (Inr \<lparr>fid = 0, food_data = plain_food ''1'' ''A'' 7, created_at = 0, updated_at = 9\<rparr>,
      stock_db\<lparr>foods := [\<lparr>fid = 0, food_data = plain_food ''1'' ''A'' 7, created_at = 0, updated_at = 9\<rparr>]\<rparr>) \<and>
   name (apply_update (empty_update\<lparr>upd_quantity := Some 7\<rparr>) (plain_food ''1'' ''A'' 3)) =
     name (plain_food ''1'' ''A'' 3) \<and>
   quantity (apply_update (empty_update\<lparr>upd_quantity := Some 7\<rparr>) (plain_food ''1'' ''A'' 3)) = 7"
proof -
  let ?u = "empty_update\<lparr>upd_quantity := Some 7\<rparr>"
  let ?f = "\<lparr>fid = 0, food_data = plain_food ''1'' ''A'' 3, created_at = 0, updated_at = 0\<rparr>"
  have u: "?u \<noteq> empty_update"
    by (simp add: empty_update_def)
  have absent: "5 \<notin> fid ` set (foods stock_db)"
    by (simp add: stock_db_def)
  have present: "get_food_by_id stock_db 0 = Some ?f"
    by (simp add: stock_db_def get_food_by_id_def)
  have nm: "upd_name ?u = None" and qty: "upd_quantity ?u = Some 7"
    by (simp_all add: empty_update_def)
  note T5 = update_food_endpoint_gates
              [where db = stock_db and i = 5 and u = ?u and now = 9 and d = "plain_food ''1'' ''A'' 3"]
  note T0 = update_food_endpoint_gates
              [where db = stock_db and i = 0 and u = ?u and now = 9 and f = ?f
                 and d = "plain_food ''1'' ''A'' 3"]
  have c1: "update_food_endpoint stock_db 5 ?u 9 = (Inl (HTTPException 404 ''Food not found''), stock_db)"
    using T5 u absent by blast
  have "update_food_endpoint stock_db 0 ?u 9 =
        (Inr (?f\<lparr>food_data := apply_update ?u (food_data ?f), updated_at := 9\<rparr>),
         stock_db\<lparr>foods := map (\<lambda>f. if fid f = 0
                                then f\<lparr>food_data := apply_update ?u (food_data f), updated_at := 9\<rparr>
                                else f) (foods stock_db)\<rparr>)"
    using T0 u present by blast
  then have c2: "update_food_endpoint stock_db 0 ?u 9 =
     (Inr \<lparr>fid = 0, food_data = plain_food ''1'' ''A'' 7, created_at = 0, updated_at = 9\<rparr>,
      stock_db\<lparr>foods := [\<lparr>fid = 0, food_data = plain_food ''1'' ''A'' 7, created_at = 0, updated_at = 9\<rparr>]\<rparr>)"
    by (simp add: stock_db_def apply_update_def empty_update_def plain_food_def)
  have "upd_name ?u = None \<longrightarrow>
          name (apply_update ?u (plain_food ''1'' ''A'' 3)) = name (plain_food ''1'' ''A'' 3)"
    using T0 by - (elim conjE, assumption)
  with nm have c3: "name (apply_update ?u (plain_food ''1'' ''A'' 3)) = name (plain_food ''1'' ''A'' 3)"
    by (rule rev_mp)
  have "\<forall>v. upd_quantity ?u = Some v \<longrightarrow> quantity (apply_update ?u (plain_food ''1'' ''A'' 3)) = v"
    using T0 by - (elim conjE, assumption)
  with qty have c4: "quantity (apply_update ?u (plain_food ''1'' ''A'' 3)) = 7"
    by blast
  from c1 c2 c3 c4 show ?thesis
    by (intro conjI)
qed

section \<open>Creating a food\<close>

lemma find_snoc:
  "find P (xs @ [x]) = (case find P xs of None \<Rightarrow> (if P x then Some x else None) | Some y \<Rightarrow> Some y)"
  by (induction xs) auto

text \<open>
  Claim C6. In a database whose identifiers all come from the generator, CreateFood
  succeeds for every payload, whatever barcodes are stored: the new row carries the
  payload as its fields, its identifier differs from that of every stored row, it is
  appended to the rows and nothing else changes, and GetFood of its identifier returns
  it.
\<close>

theorem create_food_endpoint_always_inserts:
  assumes "wf_db db"
  shows "\<exists>item db'.
           create_food_endpoint create_food db food now =
             (Inr item, db', [(INFO, ''Created new food: '' @ barcode food)]) \<and>
           food_data item = food \<and>
           (\<forall>f \<in> set (foods db). fid f \<noteq> fid item) \<and>
           foods db' = foods db @ [item] \<and>
           nutrition_logs db' = nutrition_logs db \<and>
           get_food_endpoint db' (fid item) = Inr item \<and>
           wf_db db'"
proof -
  let ?item = "\<lparr>fid = next_id db, food_data = food, created_at = now, updated_at = now\<rparr>"
  let ?db' = "db\<lparr>foods := foods db @ [?item], next_id := Suc (next_id db)\<rparr>"
  have created: "create_food db food now = Inr (?item, ?db')"
    by (simp add: create_food_def Let_def)
  then have run: "create_food_endpoint create_food db food now =
             (Inr ?item, ?db', [(INFO, ''Created new food: '' @ barcode food)])"
    by (simp add: create_food_endpoint_def)
  have fresh: "\<forall>f \<in> set (foods db). fid f \<noteq> fid ?item"
    using assms by (auto simp: wf_db_def list_all_iff)
  then have "find (\<lambda>f. fid f = next_id db) (foods db) = None"
    by (auto simp: find_None_iff)
  then have get: "get_food_endpoint ?db' (fid ?item) = Inr ?item"
    by (simp add: get_food_endpoint_def get_food_by_id_def find_snoc)
  have wf: "wf_db ?db'"
    using assms created by (rule wf_db_create_food)
  from run fresh get wf show ?thesis
    by (intro exI [of _ ?item] exI [of _ ?db']) simp
qed


theorem create_food_endpoint_always_inserts_witness:
  "wf_db stock_db \<and>
   barcode (food_data (hd (foods stock_db))) = barcode (plain_food ''1'' ''B'' 2) \<and>
   (\<exists>item db'.
      create_food_endpoint create_food stock_db (plain_food ''1'' ''B'' 2) 9 =
        (Inr item, db', [(INFO, ''Created new food: '' @ barcode (plain_food ''1'' ''B'' 2))]) \<and>
      food_data item = plain_food ''1'' ''B'' 2 \<and>
      (\<forall>f \<in> set (foods stock_db). fid f \<noteq> fid item) \<and>
      foods db' = foods stock_db @ [item] \<and>
      nutrition_logs db' = nutrition_logs stock_db \<and>
      get_food_endpoint db' (fid item) = Inr item \<and>
      wf_db db')"
proof -
  have wf: "wf_db stock_db"
    by (simp add: wf_db_def stock_db_def)
  have same: "barcode (food_data (hd (foods stock_db))) = barcode (plain_food ''1'' ''B'' 2)"
    by (simp add: stock_db_def plain_food_def)
  from wf same create_food_endpoint_always_inserts [OF wf, of "plain_food ''1'' ''B'' 2" 9]
  show ?thesis
    by (intro conjI)
qed

section \<open>Low stock\<close>

text \<open>
  Claim C8, as the specification states it for every threshold, fails for a negative
  one: a food of quantity -5 is below the threshold -1, and the endpoint rejects the
  request, the parameter being declared with \<^verbatim>\<open>ge=0\<close>.
\<close>

theorem low_stock_negative_threshold_counterexample:
  "quantity (food_data (hd (foods negative_db))) < - 1 \<and>
   get_low_stock_foods_endpoint negative_db (Some (- 1)) = Inl (RequestValidationError [''threshold''])"
  by (simp add: negative_db_def plain_food_def get_low_stock_foods_endpoint_def query_default_def check_ge_def)

text \<open>
  Claim C8, amended. For every threshold that is not negative, ListLowStock returns
  exactly the foods whose quantity is strictly less than the threshold, in the order of
  the store; a negative threshold is rejected before the query with a
  RequestValidationError on \<^verbatim>\<open>threshold\<close>. ListLowStock(0) returns the foods of
  negative quantity, and without a threshold the default 5 is taken. Such a quantity
  is reachable: the example after the theorem takes a stored food of quantity 3 to
  quantity -2 by AdjustQuantity with delta -5, and ListLowStock(0) then returns it.
\<close>

theorem low_stock_strictly_below:
  "(0 \<le> t \<longrightarrow>
      get_low_stock_foods_endpoint db (Some t) =
        Inr (filter (\<lambda>f. quantity (food_data f) < t) (foods db))) \<and>
   (t < 0 \<longrightarrow>
      get_low_stock_foods_endpoint db (Some t) = Inl (RequestValidationError [''threshold''])) \<and>
   get_low_stock_foods_endpoint db (Some 0) =
     Inr (filter (\<lambda>f. quantity (food_data f) < 0) (foods db)) \<and>
   get_low_stock_foods_endpoint db None =
     Inr (filter (\<lambda>f. quantity (food_data f) < 5) (foods db))"
  by (simp add: get_low_stock_foods_endpoint_def get_low_stock_foods_def query_default_def check_ge_def)

theorem low_stock_strictly_below_witness:
  "get_low_stock_foods_endpoint stock_db (Some 3) = Inr [] \<and>
   get_low_stock_foods_endpoint stock_db (Some 4) = Inr (foods stock_db) \<and>
   get_low_stock_foods_endpoint stock_db (Some (- 1)) = Inl (RequestValidationError [''threshold'']) \<and>
   (\<exists>item db'.
      update_quantity_endpoint stock_db 0 \<lparr>quantity_change = - 5, action = ''consumed''\<rparr> 9 = (Inr item, db') \<and>
      quantity (food_data item) = - 2 \<and>
      get_low_stock_foods_endpoint db' (Some 0) = Inr [item])"
proof -
  have c1: "get_low_stock_foods_endpoint stock_db (Some 3) = Inr []"
    using low_stock_strictly_below [where db = stock_db and t = 3]
    by (simp add: stock_db_def plain_food_def)
  have c2: "get_low_stock_foods_endpoint stock_db (Some 4) = Inr (foods stock_db)"
    using low_stock_strictly_below [where db = stock_db and t = 4]
    by (simp add: stock_db_def plain_food_def)
  have c3: "get_low_stock_foods_endpoint stock_db (Some (- 1)) = Inl (RequestValidationError [''threshold''])"
    using low_stock_strictly_below [where db = stock_db and t = "- 1"]
    by simp
  let ?item = "\<lparr>fid = 0, food_data = plain_food ''1'' ''A'' (- 2), created_at = 0, updated_at = 9\<rparr>"
  let ?db' = "\<lparr>foods = [?item],
               nutrition_logs = [\<lparr>log_id = 1, food_id = 0, log_quantity = - 5, log_action = ''consumed'',
                                 log_timestamp = 9\<rparr>],
               next_id = 2\<rparr>"
  have run: "update_quantity_endpoint stock_db 0 \<lparr>quantity_change = - 5, action = ''consumed''\<rparr> 9 =
               (Inr ?item, ?db')"
    by (simp add: update_quantity_endpoint_def update_quantity_def get_food_by_id_def stock_db_def
        modify_food_def plain_food_def)
  have low: "get_low_stock_foods_endpoint ?db' (Some 0) = Inr [?item]"
    using low_stock_strictly_below [where db = ?db' and t = 0]
    by (simp add: plain_food_def)
  have q: "quantity (food_data ?item) = - 2"
    by (simp add: plain_food_def)
  from run q low have c4: "\<exists>item db'.
      update_quantity_endpoint stock_db 0 \<lparr>quantity_change = - 5, action = ''consumed''\<rparr> 9 = (Inr item, db') \<and>
      quantity (food_data item) = - 2 \<and>
      get_low_stock_foods_endpoint db' (Some 0) = Inr [item]"
    by blast
  from c1 c2 c3 c4 show ?thesis
    by (intro conjI)
qed

section \<open>Health check\<close>

text \<open>
  Claim C9. HealthCheck returns the status "healthy" and the current time, and takes
  neither the database nor anything of the startup as an argument. Whatever
  \<^verbatim>\<open>create_tables\<close> and \<^verbatim>\<open>test_connection\<close> do at startup, return or raise,
  \<^verbatim>\<open>lifespan\<close> only logs a line and the application answers the health check in
  the same way.
\<close>

theorem health_check_unconditional:
  "health_check now = [(''status'', JStr ''healthy''), (''timestamp'', JTime now)] \<and>
   health_after_startup create_tables test_connection now =
     (lifespan create_tables test_connection, health_check now) \<and>
   (\<forall>e. create_tables = Inl e \<longrightarrow>
      lifespan create_tables test_connection = [(ERROR, ''Startup error: '' @ str_exn e)]) \<and>
   (\<forall>e. create_tables = Inr () \<and> test_connection = Inl e \<longrightarrow>
      lifespan create_tables test_connection = [(ERROR, ''Startup error: '' @ str_exn e)]) \<and>
   (create_tables = Inr () \<and> test_connection = Inr False \<longrightarrow>
      lifespan create_tables test_connection = [(ERROR, ''Database connection failed'')]) \<and>
   (create_tables = Inr () \<and> test_connection = Inr True \<longrightarrow>
      lifespan create_tables test_connection = [(INFO, ''Database connection successful'')])"
  by (simp add: health_check_def health_after_startup_def lifespan_def Let_def)

theorem health_check_unconditional_witness:
  "health_after_startup (Inl (Exception ''no database'')) (Inr True) 9 =
     ([(ERROR, ''Startup error: no database'')],
      [(''status'', JStr ''healthy''), (''timestamp'', JTime 9)]) \<and>
   health_after_startup (Inr ()) (Inr False) 9 =
     ([(ERROR, ''Database connection failed'')],
      [(''status'', JStr ''healthy''), (''timestamp'', JTime 9)]) \<and>
   health_after_startup (Inr ()) (Inl (Exception ''timeout'')) 9 =
     ([(ERROR, ''Startup error: timeout'')],
      [(''status'', JStr ''healthy''), (''timestamp'', JTime 9)]) \<and>
   health_after_startup (Inr ()) (Inr True) 9 =
     ([(INFO, ''Database connection successful'')],
      [(''status'', JStr ''healthy''), (''timestamp'', JTime 9)])"
  using health_check_unconditional [where create_tables = "Inl (Exception ''no database'')"
          and test_connection = "Inr True" and now = 9]
        health_check_unconditional [where create_tables = "Inr ()" and test_connection = "Inr False" and now = 9]
        health_check_unconditional [where create_tables = "Inr ()"
          and test_connection = "Inl (Exception ''timeout'')" and now = 9]
        health_check_unconditional [where create_tables = "Inr ()" and test_connection = "Inr True" and now = 9]
  by simp

section \<open>Bounds of the paginated reads\<close>

lemma page_errors_iff:
  "check_ge ''skip'' 0 s @ check_ge ''limit'' 1 l @ check_le ''limit'' 1000 l = [] \<longleftrightarrow>
     0 \<le> s \<and> 1 \<le> l \<and> l \<le> 1000"
  by (auto simp: check_ge_def check_le_def)

lemma days_errors_iff:
  "check_ge ''days_ahead'' 1 d @ check_le ''days_ahead'' 365 d = [] \<longleftrightarrow> 1 \<le> d \<and> d \<le> 365"
  by (auto simp: check_ge_def check_le_def)

text \<open>
  Claim C10. For ListFoods, SearchFoods and ListNutritionLogs, a limit outside 1..1000
  or a negative offset is answered with a RequestValidationError that is the same
  whatever function runs the query, so the query is not reached; likewise for
  ListExpiring and a \<^verbatim>\<open>days_ahead\<close> outside 1..365. Within the bounds each endpoint
  returns what the query returns on the parameters given, or on their defaults.
\<close>

theorem paginated_reads_check_bounds:
  "(\<not> page_in_bounds skip limit \<longrightarrow>
      (\<exists>errors. \<forall>get_all_foods :: database \<Rightarrow> int \<Rightarrow> int \<Rightarrow> 'a.
         get_foods_endpoint get_all_foods db skip limit = Inl (RequestValidationError errors)) \<and>
      (\<exists>errors. \<forall>search_foods :: database \<Rightarrow> string \<Rightarrow> int \<Rightarrow> int \<Rightarrow> 'b.
         search_foods_endpoint search_foods db q skip limit = Inl (RequestValidationError errors)) \<and>
      (\<exists>errors. \<forall>get_nutrition_logs :: database \<Rightarrow> string option \<Rightarrow> int \<Rightarrow> int \<Rightarrow> 'c.
         get_nutrition_logs_endpoint get_nutrition_logs db food skip limit =
           Inl (RequestValidationError errors))) \<and>
   (\<not> days_in_bounds days_ahead \<longrightarrow>
      (\<exists>errors. \<forall>get_expiring_foods :: database \<Rightarrow> int \<Rightarrow> 'd.
         get_expiring_foods_endpoint get_expiring_foods db days_ahead =
           Inl (RequestValidationError errors))) \<and>
   (page_in_bounds skip limit \<longrightarrow>
      get_foods_endpoint all_foods db skip limit =
        Inr (all_foods db (query_default 0 skip) (query_default 100 limit)) \<and>
      search_foods_endpoint search db (Some query) skip limit =
        Inr (search db query (query_default 0 skip) (query_default 100 limit)) \<and>
      get_nutrition_logs_endpoint logs db food skip limit =
        Inr (logs db food (query_default 0 skip) (query_default 100 limit))) \<and>
   (days_in_bounds days_ahead \<longrightarrow>
      get_expiring_foods_endpoint expiring db days_ahead =
        Inr (expiring db (query_default 7 days_ahead)))"
proof (intro conjI impI)
  let ?s = "query_default 0 skip" and ?l = "query_default 100 limit"
  let ?errors = "check_ge ''skip'' 0 ?s @ check_ge ''limit'' 1 ?l @ check_le ''limit'' 1000 ?l"
  assume "\<not> page_in_bounds skip limit"
  then have bad: "?errors \<noteq> []"
    by (simp only: page_in_bounds_def page_errors_iff not_False_eq_True)
  then show "\<exists>errors. \<forall>get_all_foods :: database \<Rightarrow> int \<Rightarrow> int \<Rightarrow> 'a.
         get_foods_endpoint get_all_foods db skip limit = Inl (RequestValidationError errors)"
    by (intro exI [of _ ?errors]) (simp add: get_foods_endpoint_def Let_def)
  from bad show "\<exists>errors. \<forall>search_foods :: database \<Rightarrow> string \<Rightarrow> int \<Rightarrow> int \<Rightarrow> 'b.
         search_foods_endpoint search_foods db q skip limit = Inl (RequestValidationError errors)"
    by (intro exI [of _ "(if q = None then [''q''] else []) @ ?errors"])
      (simp add: search_foods_endpoint_def Let_def)
  from bad show "\<exists>errors. \<forall>get_nutrition_logs :: database \<Rightarrow> string option \<Rightarrow> int \<Rightarrow> int \<Rightarrow> 'c.
         get_nutrition_logs_endpoint get_nutrition_logs db food skip limit =
           Inl (RequestValidationError errors)"
    by (intro exI [of _ ?errors]) (simp add: get_nutrition_logs_endpoint_def Let_def)
next
  let ?d = "query_default 7 days_ahead"
  let ?errors = "check_ge ''days_ahead'' 1 ?d @ check_le ''days_ahead'' 365 ?d"
  assume "\<not> days_in_bounds days_ahead"
  then have "?errors \<noteq> []"
    by (simp only: days_in_bounds_def days_errors_iff not_False_eq_True)
  then show "\<exists>errors. \<forall>get_expiring_foods :: database \<Rightarrow> int \<Rightarrow> 'd.
         get_expiring_foods_endpoint get_expiring_foods db days_ahead =
           Inl (RequestValidationError errors)"
    by (intro exI [of _ ?errors]) (simp add: get_expiring_foods_endpoint_def Let_def)
next
  let ?s = "query_default 0 skip" and ?l = "query_default 100 limit"
  assume "page_in_bounds skip limit"
  then have ok: "check_ge ''skip'' 0 ?s @ check_ge ''limit'' 1 ?l @ check_le ''limit'' 1000 ?l = []"
    by (simp only: page_in_bounds_def page_errors_iff)
  then show "get_foods_endpoint all_foods db skip limit = Inr (all_foods db ?s ?l)"
    by (simp add: get_foods_endpoint_def Let_def)
  from ok show "search_foods_endpoint search db (Some query) skip limit = Inr (search db query ?s ?l)"
    by (simp add: search_foods_endpoint_def Let_def)
  from ok show "get_nutrition_logs_endpoint logs db food skip limit = Inr (logs db food ?s ?l)"
    by (simp add: get_nutrition_logs_endpoint_def Let_def)
next
  let ?d = "query_default 7 days_ahead"
  assume "days_in_bounds days_ahead"
  then have "check_ge ''days_ahead'' 1 ?d @ check_le ''days_ahead'' 365 ?d = []"
    by (simp only: days_in_bounds_def days_errors_iff)
  then show "get_expiring_foods_endpoint expiring db days_ahead = Inr (expiring db ?d)"
    by (simp add: get_expiring_foods_endpoint_def Let_def)
qed


theorem paginated_reads_check_bounds_witness:
  "get_foods_endpoint (\<lambda>db s l. (s, l)) stock_db (Some (- 1)) (Some 10) =
     Inl (RequestValidationError [''skip'']) \<and>
   search_foods_endpoint (\<lambda>db q s l. (q, s, l)) stock_db (Some ''a'') (Some 0) (Some 1001) =
     Inl (RequestValidationError [''limit'']) \<and>
   get_nutrition_logs_endpoint (\<lambda>db f s l. (f, s, l)) stock_db None (Some 0) (Some 0) =
     Inl (RequestValidationError [''limit'']) \<and>
   get_expiring_foods_endpoint (\<lambda>db d. d) stock_db (Some 366) =
     Inl (RequestValidationError [''days_ahead'']) \<and>
   get_foods_endpoint (\<lambda>db s l. (s, l)) stock_db (Some 0) (Some 1000) = Inr (0, 1000) \<and>
   search_foods_endpoint (\<lambda>db q s l. (q, s, l)) stock_db (Some ''a'') None None = Inr (''a'', 0, 100) \<and>
   get_nutrition_logs_endpoint (\<lambda>db f s l. (f, s, l)) stock_db None (Some 5) (Some 1) = Inr (None, 5, 1) \<and>
   get_expiring_foods_endpoint (\<lambda>db d. d) stock_db (Some 365) = Inr 365"
proof -
  note defs = page_in_bounds_def days_in_bounds_def query_default_def get_foods_endpoint_def
    search_foods_endpoint_def get_nutrition_logs_endpoint_def get_expiring_foods_endpoint_def
    check_ge_def check_le_def
  have c1: "get_foods_endpoint (\<lambda>db s l. (s, l)) stock_db (Some (- 1)) (Some 10) =
     Inl (RequestValidationError [''skip''])"
    using paginated_reads_check_bounds [where db = stock_db and skip = "Some (- 1)" and limit = "Some 10"]
    by (simp add: defs)
  have c2: "search_foods_endpoint (\<lambda>db q s l. (q, s, l)) stock_db (Some ''a'') (Some 0) (Some 1001) =
     Inl (RequestValidationError [''limit''])"
    using paginated_reads_check_bounds [where db = stock_db and skip = "Some 0" and limit = "Some 1001"
        and q = "Some ''a''"]
    by (simp add: defs)
  have c3: "get_nutrition_logs_endpoint (\<lambda>db f s l. (f, s, l)) stock_db None (Some 0) (Some 0) =
     Inl (RequestValidationError [''limit''])"
    using paginated_reads_check_bounds [where db = stock_db and skip = "Some 0" and limit = "Some 0"
        and food = None]
    by (simp add: defs)
  have c4: "get_expiring_foods_endpoint (\<lambda>db d. d) stock_db (Some 366) =
     Inl (RequestValidationError [''days_ahead''])"
    using paginated_reads_check_bounds [where db = stock_db and days_ahead = "Some 366"]
    by (simp add: defs)
  have c5: "get_foods_endpoint (\<lambda>db s l. (s, l)) stock_db (Some 0) (Some 1000) = Inr (0, 1000)"
    using paginated_reads_check_bounds [where db = stock_db and skip = "Some 0" and limit = "Some 1000"
        and all_foods = "\<lambda>db s l. (s, l)"]
    by (simp add: defs)
  have c6: "search_foods_endpoint (\<lambda>db q s l. (q, s, l)) stock_db (Some ''a'') None None = Inr (''a'', 0, 100)"
    using paginated_reads_check_bounds [where db = stock_db and skip = None and limit = None
        and search = "\<lambda>db q s l. (q, s, l)" and query = "''a''"]
    by (simp add: defs)
  have c7: "get_nutrition_logs_endpoint (\<lambda>db f s l. (f, s, l)) stock_db None (Some 5) (Some 1) = Inr (None, 5, 1)"
    using paginated_reads_check_bounds [where db = stock_db and skip = "Some 5" and limit = "Some 1"
        and logs = "\<lambda>db f s l. (f, s, l)" and food = None]
    by (simp add: defs)
  have c8: "get_expiring_foods_endpoint (\<lambda>db d. d) stock_db (Some 365) = Inr 365"
    using paginated_reads_check_bounds [where db = stock_db and days_ahead = "Some 365"
        and expiring = "\<lambda>db d. d"]
    by (simp add: defs)
  from c1 c2 c3 c4 c5 c6 c7 c8 show ?thesis
    by (intro conjI)
qed

section \<open>What the error paths put into the detail\<close>

text \<open>
  The facts of this section are about the values that the functions of
  \<^verbatim>\<open>backend/main.py\<close> build. When the importer raises, \<^verbatim>\<open>bulk_import_endpoint\<close> logs
  the text of the exception and raises an HTTPException whose detail ends with the same
  text, and \<^verbatim>\<open>http_exception_handler\<close> copies the detail of an HTTPException into the
  ErrorResponse it returns. \<^verbatim>\<open>create_food_endpoint\<close> and
  \<^verbatim>\<open>general_exception_handler\<close> keep the text for the log and put the fixed text
  "Internal server error" into the detail. What the client receives for an ErrorResponse
  is decided by \<^verbatim>\<open>schemas.py\<close> and the framework, and is not part of this development.
\<close>

lemma bulk_import_endpoint_raises:
  "importer data = Inl e \<Longrightarrow>
     bulk_import_endpoint importer data =
       (Inl (HTTPException 500 (''Bulk import failed: '' @ str_exn e)),
        [(ERROR, ''Bulk import error: '' @ str_exn e)])"
  by (simp add: bulk_import_endpoint_def)

lemma str_nat_500: "str_nat 500 = ''500''"
  by (simp add: str_nat.simps digit_char_def)

lemma http_exception_handler_copies_detail:
  "http_exception_handler 500 d now = \<lparr>detail = d, error_code = ''500'', timestamp = now\<rparr>"
  by (simp add: http_exception_handler_def str_nat_500)

lemma create_food_endpoint_opaque:
  "failing db food now = Inl (Exception m) \<Longrightarrow>
     create_food_endpoint failing db food now =
       (Inl (HTTPException 500 ''Internal server error''), db, [(ERROR, ''Error creating food: '' @ m)])"
  by (simp add: create_food_endpoint_def)

lemma general_exception_handler_opaque:
  "general_exception_handler exc now =
     (\<lparr>detail = ''Internal server error'', error_code = ''500'', timestamp = now\<rparr>,
      [(ERROR, ''Unhandled exception: '' @ str_exn exc)])"
  by (simp add: general_exception_handler_def)

end
